theory Spec2Isabelle
  imports Complex_Main "HOL-Library.Char_ord" "HOL-Library.List_Lexorder"
    "HOL-Library.Product_Lexorder" "HOL-Library.Multiset"
begin

section \<open>Strings\<close>

text \<open>
  Python strings are modelled as \<^typ>\<open>string\<close>; a character stands for the code point
  of the same number (0 to 255).  The helpers below are the string methods of the
  standard library that \<^verbatim>\<open>pu_qstat.py\<close> calls.
\<close>

definition is_upper_chr :: "char \<Rightarrow> bool" where
  "is_upper_chr c =
     (let n = (of_char c :: nat)
      in (65 \<le> n \<and> n \<le> 90) \<or> (192 \<le> n \<and> n \<le> 222 \<and> n \<noteq> 215))"

definition lower_chr :: "char \<Rightarrow> char" where
  "lower_chr c = (if is_upper_chr c then char_of ((of_char c :: nat) + 32) else c)"

definition lower :: "string \<Rightarrow> string" where
  \<comment> \<open>\<^verbatim>\<open>str.lower()\<close>\<close>
  "lower s = map lower_chr s"

definition is_space :: "char \<Rightarrow> bool" where
  \<comment> \<open>\<^verbatim>\<open>str.isspace()\<close> on one character, which is also what \<^verbatim>\<open>\s\<close> matches\<close>
  "is_space c =
     (let n = (of_char c :: nat)
      in (9 \<le> n \<and> n \<le> 13) \<or> (28 \<le> n \<and> n \<le> 32) \<or> n = 133 \<or> n = 160)"

definition lstrip :: "string \<Rightarrow> string" where
  "lstrip s = dropWhile is_space s"

definition rstrip :: "string \<Rightarrow> string" where
  "rstrip s = rev (dropWhile is_space (rev s))"

definition strip :: "string \<Rightarrow> string" where
  "strip s = rstrip (lstrip s)"

fun split_chr :: "char \<Rightarrow> string \<Rightarrow> string list" where
  \<comment> \<open>\<^verbatim>\<open>s.split(c)\<close> for a one-character separator: never an empty list\<close>
  "split_chr c [] = [[]]"
| "split_chr c (x # xs) =
     (if x = c then [] # split_chr c xs
      else (case split_chr c xs of
              [] \<Rightarrow> [[x]]
            | p # ps \<Rightarrow> (x # p) # ps))"

definition before_at :: "string \<Rightarrow> string" where
  \<comment> \<open>\<^verbatim>\<open>s.split('@')[0]\<close>\<close>
  "before_at s = (case split_chr (CHR ''@'') s of [] \<Rightarrow> [] | p # _ \<Rightarrow> p)"

definition is_lower_chr :: "char \<Rightarrow> bool" where
  "is_lower_chr c =
     (let n = (of_char c :: nat)
      in (97 \<le> n \<and> n \<le> 122) \<or> (224 \<le> n \<and> n \<le> 254 \<and> n \<noteq> 247))"

definition upper_chr :: "char \<Rightarrow> string" where
  \<comment> \<open>\<^verbatim>\<open>c.upper()\<close> for one character, as far as it lies in the range: code point 223
      becomes \<^verbatim>\<open>SS\<close>; the upper case of code points 181 and 255 is one character beyond
      code point 255, which no string of the model holds, and is left out\<close>
  "upper_chr c =
     (let n = (of_char c :: nat)
      in if is_lower_chr c then [char_of (n - 32)]
         else if n = 223 then ''SS''
         else if n = 181 \<or> n = 255 then []
         else [c])"

definition upper_set :: "string \<Rightarrow> char set" where
  \<comment> \<open>\<^verbatim>\<open>set(s.upper())\<close>, as the set of its members that a string of the model can
      equal\<close>
  "upper_set s = set (concat (map upper_chr s))"

definition is_digit :: "char \<Rightarrow> bool" where
  \<comment> \<open>what \<^verbatim>\<open>[0-9]\<close> and \<^verbatim>\<open>\d\<close> match\<close>
  "is_digit c = (let n = (of_char c :: nat) in 48 \<le> n \<and> n \<le> 57)"

fun is_prefix :: "string \<Rightarrow> string \<Rightarrow> bool" where
  "is_prefix [] s = True"
| "is_prefix (p # ps) [] = False"
| "is_prefix (p # ps) (c # cs) = (p = c \<and> is_prefix ps cs)"

fun contains :: "string \<Rightarrow> string \<Rightarrow> bool" where
  \<comment> \<open>\<^verbatim>\<open>sub in s\<close>\<close>
  "contains sub [] = (sub = [])"
| "contains sub (c # cs) = (is_prefix sub (c # cs) \<or> contains sub cs)"

section \<open>Python values, exceptions and the standard library\<close>

text \<open>
  The data the program works on comes out of \<^verbatim>\<open>json.loads\<close>: \<^verbatim>\<open>None\<close>, booleans,
  integers, floats, strings, lists and dicts with string keys.  A dict is an association
  list in insertion order; \<open>dict_get\<close> reads the last store to a key.  A float is the real
  number it denotes, an infinity or a NaN.
\<close>

datatype pyfloat = Fin real | PosInf | NegInf | NaN

datatype pyval =
    PNone
  | PBool bool
  | PInt int
  | PFloat pyfloat
  | PStr string
  | PList "pyval list"
  | PDict "(string \<times> pyval) list"

datatype exn =
    KeyError | ValueError | TypeError | ZeroDivisionError | IndexError
  | AttributeError | NameError | SyntaxError | OverflowError | UnboundLocalError
  | SystemExit

definition is_Exception :: "exn \<Rightarrow> bool" where
  \<comment> \<open>what \<^verbatim>\<open>except Exception\<close> catches: every class above but \<^verbatim>\<open>SystemExit\<close>\<close>
  "is_Exception e = (e \<noteq> SystemExit)"

definition bnd :: "exn + 'a \<Rightarrow> ('a \<Rightarrow> exn + 'b) \<Rightarrow> exn + 'b" where
  \<comment> \<open>sequencing: an exception raised by the first step ends the computation\<close>
  "bnd m f = (case m of Inl e \<Rightarrow> Inl e | Inr x \<Rightarrow> f x)"

definition returns :: "exn + 'a \<Rightarrow> bool" where
  \<comment> \<open>the call returns a value: it raises nothing\<close>
  "returns r = (case r of Inl e \<Rightarrow> False | Inr x \<Rightarrow> True)"

definition dict_get :: "(string \<times> 'v) list \<Rightarrow> string \<Rightarrow> 'v option" where
  \<comment> \<open>a dict built by successive stores: the last store to a key is the one read\<close>
  "dict_get d k = map_of (rev d) k"

definition dict_items :: "(string \<times> 'v) list \<Rightarrow> (string \<times> 'v) list" where
  \<comment> \<open>\<^verbatim>\<open>d.items()\<close>: each key once, in the order of its first store, with the value of
      its last store\<close>
  "dict_items d =
     concat (map (\<lambda>k. case dict_get d k of None \<Rightarrow> [] | Some v \<Rightarrow> [(k, v)])
               (rev (remdups (rev (map fst d)))))"

definition dict_set :: "(string \<times> 'v) list \<Rightarrow> string \<Rightarrow> 'v \<Rightarrow> (string \<times> 'v) list" where
  \<comment> \<open>\<^verbatim>\<open>d[k] = v\<close> on a dict whose keys are distinct: a key that is there keeps its
      place and takes the value, a new key goes to the end\<close>
  "dict_set d k v =
     (if k \<in> fst ` set d then map (\<lambda>(k', v'). if k' = k then (k', v) else (k', v')) d
      else d @ [(k, v)])"

definition truthy :: "pyval \<Rightarrow> bool" where
  "truthy v =
     (case v of
        PNone \<Rightarrow> False
      | PBool b \<Rightarrow> b
      | PInt i \<Rightarrow> i \<noteq> 0
      | PFloat f \<Rightarrow> f \<noteq> Fin 0
      | PStr s \<Rightarrow> s \<noteq> []
      | PList xs \<Rightarrow> xs \<noteq> []
      | PDict d \<Rightarrow> d \<noteq> [])"

definition py_get :: "pyval \<Rightarrow> string \<Rightarrow> pyval \<Rightarrow> exn + pyval" where
  \<comment> \<open>\<^verbatim>\<open>obj.get(key, default)\<close>: only a dict has the method\<close>
  "py_get obj k dflt =
     (case obj of
        PDict d \<Rightarrow> Inr (case dict_get d k of None \<Rightarrow> dflt | Some v \<Rightarrow> v)
      | _ \<Rightarrow> Inl AttributeError)"

text \<open>
  The functions of the standard library and of the interpreter that the program calls,
  and whose results the repository does not determine, are the fields of a record; every
  definition below takes the record as its first argument, and every theorem holds for
  whatever these functions return.  \<open>'dt\<close> is the type of \<^verbatim>\<open>datetime\<close> objects.
  \<^item> \<open>int_str s\<close>: \<^verbatim>\<open>int(s)\<close> for a string that is not made of the digits 0 to 9
    only (\<open>py_int\<close> below reads a string of digits itself), \<open>None\<close> when it raises
    \<^verbatim>\<open>ValueError\<close>;
  \<^item> \<open>float_str s\<close>: \<^verbatim>\<open>float(s)\<close> for a string, \<open>None\<close> when it raises \<^verbatim>\<open>ValueError\<close>;
  \<^item> \<open>float_int i\<close>: \<^verbatim>\<open>float(i)\<close> for an integer beyond \<open>2 ^ 53\<close> (a smaller one
    is a float as it is), \<open>None\<close> when it raises \<^verbatim>\<open>OverflowError\<close>;
  \<^item> \<open>str_of v\<close>: \<^verbatim>\<open>str(v)\<close> for a float, a list or a dict;
  \<^item> \<open>strptime s fmt\<close>: \<^verbatim>\<open>datetime.strptime(s, fmt)\<close> for a string, \<open>None\<close> when it
    raises \<^verbatim>\<open>ValueError\<close>;
  \<^item> \<open>fromtimestamp i\<close>: \<^verbatim>\<open>datetime.fromtimestamp(i)\<close>, \<open>None\<close> when it raises;
  \<^item> \<open>timestamp d\<close>: \<^verbatim>\<open>d.timestamp()\<close>, or the exception it raises;
  \<^item> \<open>strftime_compact d\<close>: \<^verbatim>\<open>d.strftime('%m/%d %H:%M')\<close>;
  \<^item> \<open>now\<close>, \<open>now_year\<close>: \<^verbatim>\<open>datetime.now()\<close> and its \<^verbatim>\<open>year\<close>;
  \<^item> \<open>elapsed_seconds a b\<close>: \<^verbatim>\<open>int((a - b).total_seconds())\<close>;
  \<^item> \<open>py_eval src scope\<close>: \<^verbatim>\<open>eval(src)\<close> called where the local variables are
    \<open>scope\<close>: the value, or the exception it raises.
\<close>

record 'dt pylib =
  int_str :: "string \<Rightarrow> int option"
  float_str :: "string \<Rightarrow> pyfloat option"
  float_int :: "int \<Rightarrow> pyfloat option"
  str_of :: "pyval \<Rightarrow> string"
  strptime :: "string \<Rightarrow> string \<Rightarrow> 'dt option"
  fromtimestamp :: "int \<Rightarrow> 'dt option"
  timestamp :: "'dt \<Rightarrow> exn + pyfloat"
  strftime_compact :: "'dt \<Rightarrow> string"
  now :: "'dt"
  now_year :: int
  elapsed_seconds :: "'dt \<Rightarrow> 'dt \<Rightarrow> int"
  py_eval :: "string \<Rightarrow> (string \<times> pyval) list \<Rightarrow> exn + pyval"

definition digits_val :: "string \<Rightarrow> nat" where
  "digits_val s = foldl (\<lambda>a c. 10 * a + ((of_char c :: nat) - 48)) 0 s"

definition py_int :: "'dt pylib \<Rightarrow> string \<Rightarrow> int option" where
  \<comment> \<open>\<^verbatim>\<open>int(s)\<close> for a string: up to 4300 digits are read as they stand in every version
      of the interpreter, anything else is the library's\<close>
  "py_int lib s =
     (if s \<noteq> [] \<and> list_all is_digit s \<and> length s \<le> 4300 then Some (int (digits_val s))
      else int_str lib s)"

definition py_float :: "'dt pylib \<Rightarrow> pyval \<Rightarrow> exn + pyval" where
  \<comment> \<open>\<^verbatim>\<open>float(v)\<close>\<close>
  "py_float lib v =
     (case v of
        PNone \<Rightarrow> Inl TypeError
      | PBool b \<Rightarrow> Inr (PFloat (Fin (if b then 1 else 0)))
      | PInt i \<Rightarrow>
          if \<bar>i\<bar> \<le> 2 ^ 53 then Inr (PFloat (Fin (of_int i)))
          else (case float_int lib i of None \<Rightarrow> Inl OverflowError | Some f \<Rightarrow> Inr (PFloat f))
      | PFloat f \<Rightarrow> Inr (PFloat f)
      | PStr s \<Rightarrow> (case float_str lib s of None \<Rightarrow> Inl ValueError | Some f \<Rightarrow> Inr (PFloat f))
      | PList xs \<Rightarrow> Inl TypeError
      | PDict d \<Rightarrow> Inl TypeError)"

section \<open>Durations\<close>

definition get_integers :: "'dt pylib \<Rightarrow> pyval \<Rightarrow> exn + (int \<times> int \<times> int)" where
  \<comment> \<open>\<^verbatim>\<open>hr, min, sec = stringtime.split(':')\<close>, then \<^verbatim>\<open>int\<close> of each in turn\<close>
  "get_integers lib stringtime =
     (case stringtime of
        PStr s \<Rightarrow>
          (case split_chr (CHR '':'') s of
             [h, m, x] \<Rightarrow>
               (case py_int lib h of
                  None \<Rightarrow> Inl ValueError
                | Some hr \<Rightarrow>
                    (case py_int lib m of
                       None \<Rightarrow> Inl ValueError
                     | Some mn \<Rightarrow>
                         (case py_int lib x of
                            None \<Rightarrow> Inl ValueError
                          | Some sec \<Rightarrow> Inr (hr, mn, sec))))
           | _ \<Rightarrow> Inl ValueError)
      | _ \<Rightarrow> Inl AttributeError)"

definition string_time_to_seconds :: "'dt pylib \<Rightarrow> pyval \<Rightarrow> exn + int" where
  "string_time_to_seconds lib stringtime =
     bnd (get_integers lib stringtime) (\<lambda>(hr, mn, sec). Inr (hr * 60 * 60 + mn * 60 + sec))"

section \<open>The job sort formula\<close>

definition float_attr :: "'dt pylib \<Rightarrow> pyval \<Rightarrow> string \<Rightarrow> exn + pyval" where
  \<comment> \<open>\<^verbatim>\<open>float(rl.get(name, 0))\<close>\<close>
  "float_attr lib rl name = bnd (py_get rl name (PInt 0)) (py_float lib)"

definition float_seconds :: "'dt pylib \<Rightarrow> pyval \<Rightarrow> string \<Rightarrow> exn + pyval" where
  \<comment> \<open>\<^verbatim>\<open>float(string_time_to_seconds(d.get(name, '0:0:0')))\<close>\<close>
  "float_seconds lib d name =
     bnd (py_get d name (PStr ''0:0:0''))
       (\<lambda>t. bnd (string_time_to_seconds lib t) (\<lambda>n. py_float lib (PInt n)))"

fun collect :: "(string \<times> (exn + pyval)) list \<Rightarrow> exn + (string \<times> pyval) list" where
  \<comment> \<open>the assignments in the order they are written: the first that raises ends them\<close>
  "collect [] = Inr []"
| "collect ((n, r) # rest) =
     (case r of
        Inl e \<Rightarrow> Inl e
      | Inr v \<Rightarrow> (case collect rest of Inl e \<Rightarrow> Inl e | Inr vs \<Rightarrow> Inr ((n, v) # vs)))"

definition formula_variables :: "'dt pylib \<Rightarrow> pyval \<Rightarrow> pyval \<Rightarrow> exn + (string \<times> pyval) list" where
  \<comment> \<open>lines 466 to 479: the fourteen numeric variables\<close>
  "formula_variables lib job_data rl =
     collect
       [(''base_score'', float_attr lib rl ''base_score''),
        (''score_boost'', float_attr lib rl ''score_boost''),
        (''enable_wfp'', float_attr lib rl ''enable_wfp''),
        (''wfp_factor'', float_attr lib rl ''wfp_factor''),
        (''eligible_time'', float_seconds lib job_data ''eligible_time''),
        (''walltime'', float_seconds lib rl ''walltime''),
        (''project_priority'', float_attr lib rl ''project_priority''),
        (''nodect'', float_attr lib rl ''nodect''),
        (''total_cpus'', float_attr lib rl ''total_cpus''),
        (''enable_backfill'', float_attr lib rl ''enable_backfill''),
        (''backfill_max'', float_attr lib rl ''backfill_max''),
        (''backfill_factor'', float_attr lib rl ''backfill_factor''),
        (''enable_fifo'', float_attr lib rl ''enable_fifo''),
        (''fifo_factor'', float_attr lib rl ''fifo_factor'')]"

definition first_value :: "pyval \<Rightarrow> exn + pyval" where
  \<comment> \<open>\<^verbatim>\<open>server_dict[list(server_dict.keys())[0]]\<close> for a value that is not falsy\<close>
  "first_value server_dict =
     (case server_dict of
        PDict d \<Rightarrow>
          (case d of
             [] \<Rightarrow> Inl IndexError
           | (k, _) # _ \<Rightarrow> (case dict_get d k of None \<Rightarrow> Inl KeyError | Some v \<Rightarrow> Inr v))
      | _ \<Rightarrow> Inl AttributeError)"

definition eval_formula ::
  "'dt pylib \<Rightarrow> pyval \<Rightarrow> (string \<times> pyval) list \<Rightarrow> exn + pyval" where
  \<comment> \<open>\<^verbatim>\<open>eval(formula_str)\<close>: a value that is no string is refused with \<^verbatim>\<open>TypeError\<close>\<close>
  "eval_formula lib formula_str scope =
     (case formula_str of
        PStr src \<Rightarrow> py_eval lib src scope
      | _ \<Rightarrow> Inl TypeError)"

definition formula_scope ::
  "'dt pylib \<Rightarrow> pyval \<Rightarrow> pyval \<Rightarrow> pyval \<Rightarrow> exn + (pyval \<times> (string \<times> pyval) list)" where
  \<comment> \<open>lines 462 to 479, for the \<open>server_dict\<close> that line 459 let through: the formula and
      the local variables at the call of \<^verbatim>\<open>eval\<close>\<close>
  "formula_scope lib server_data job_data server_dict =
     bnd (first_value server_dict) (\<lambda>first_server.
     bnd (py_get first_server ''job_sort_formula'' (PStr ''0'')) (\<lambda>formula_str.
     bnd (py_get job_data ''Resource_List'' (PDict [])) (\<lambda>rl.
     bnd (formula_variables lib job_data rl) (\<lambda>vars.
       Inr (formula_str,
            [(''server_data'', server_data), (''job_data'', job_data),
             (''server_dict'', server_dict), (''first_server'', first_server),
             (''formula_str'', formula_str), (''rl'', rl)] @ vars)))))"

definition caught_by_formula :: "exn \<Rightarrow> bool" where
  \<comment> \<open>\<^verbatim>\<open>except (KeyError, ValueError, TypeError, ZeroDivisionError, IndexError)\<close>\<close>
  "caught_by_formula e =
     (e = KeyError \<or> e = ValueError \<or> e = TypeError \<or> e = ZeroDivisionError \<or> e = IndexError)"

definition formula_handler :: "exn + pyval \<Rightarrow> exn + pyval" where
  \<comment> \<open>the \<^verbatim>\<open>try\<close> statement around the body: a caught exception gives \<^verbatim>\<open>0.0\<close>, any
      other one leaves the function\<close>
  "formula_handler r =
     (case r of
        Inl e \<Rightarrow> if caught_by_formula e then Inr (PFloat (Fin 0)) else Inl e
      | Inr v \<Rightarrow> Inr v)"

definition execute_job_sort_formula :: "'dt pylib \<Rightarrow> pyval \<Rightarrow> pyval \<Rightarrow> exn + pyval" where
  "execute_job_sort_formula lib server_data job_data =
     formula_handler
       (bnd (py_get server_data ''Server'' (PDict [])) (\<lambda>server_dict.
          if \<not> truthy server_dict then Inr (PFloat (Fin 0))
          else bnd (formula_scope lib server_data job_data server_dict)
                 (\<lambda>(formula_str, scope). eval_formula lib formula_str scope)))"

subsection \<open>A library for the concrete evaluations\<close>

text \<open>
  The concrete evaluations below need one library.  \<open>plain_lib\<close> is the standard library
  on text that is neither a number nor a date: every conversion of such text raises.  Its
  evaluator, \<open>eval_name\<close>, is \<^verbatim>\<open>eval\<close> on a formula that is the name of a local variable:
  the value bound to the name.  Both are applied to such inputs only.
\<close>

definition eval_name :: "string \<Rightarrow> (string \<times> pyval) list \<Rightarrow> exn + pyval" where
  "eval_name src scope = (case dict_get scope src of None \<Rightarrow> Inl NameError | Some v \<Rightarrow> Inr v)"

definition plain_lib :: "unit pylib" where
  "plain_lib =
     \<lparr>int_str = (\<lambda>s. None), float_str = (\<lambda>s. None), float_int = (\<lambda>i. None),
      str_of = (\<lambda>v. []), strptime = (\<lambda>s fmt. None), fromtimestamp = (\<lambda>i. None),
      timestamp = (\<lambda>d. Inl ValueError), strftime_compact = (\<lambda>d. []),
      now = (), now_year = 2025, elapsed_seconds = (\<lambda>a b. 0), py_eval = eval_name\<rparr>"

text \<open>
  \<open>epoch_lib\<close> is \<open>plain_lib\<close> where, as in the interpreter, every integer of moderate
  size is a time in seconds since the epoch and a string of digits is a float.
\<close>

definition epoch_lib :: "unit pylib" where
  "epoch_lib =
     plain_lib\<lparr>fromtimestamp := (\<lambda>i. Some ()),
               float_str := (\<lambda>s. if s \<noteq> [] \<and> list_all is_digit s
                                  then Some (Fin (real (digits_val s))) else None)\<rparr>"

subsection \<open>What the formula is evaluated with\<close>

lemma collect_names: "collect xs = Inr vs \<Longrightarrow> map fst vs = map fst xs"
  by (induction xs arbitrary: vs rule: collect.induct) (auto split: sum.splits)

lemma formula_variables_names:
  "formula_variables lib job_data rl = Inr vars \<Longrightarrow>
   map fst vars =
     [''base_score'', ''score_boost'', ''enable_wfp'', ''wfp_factor'', ''eligible_time'',
      ''walltime'', ''project_priority'', ''nodect'', ''total_cpus'', ''enable_backfill'',
      ''backfill_max'', ''backfill_factor'', ''enable_fifo'', ''fifo_factor'']"
  unfolding formula_variables_def by (drule collect_names) simp

lemma formula_scope_shape:
  assumes "formula_scope lib server_data job_data server_dict = Inr (formula_str, scope)"
  shows "\<exists>first_server rl vars.
           formula_variables lib job_data rl = Inr vars \<and>
           scope = [(''server_data'', server_data), (''job_data'', job_data),
                    (''server_dict'', server_dict), (''first_server'', first_server),
                    (''formula_str'', formula_str), (''rl'', rl)] @ vars"
  using assms unfolding formula_scope_def bnd_def
  by (auto split: sum.splits)

lemma default_variables:
  "formula_variables lib (PDict []) (PDict []) =
     Inr [(''base_score'', PFloat (Fin 0)), (''score_boost'', PFloat (Fin 0)),
          (''enable_wfp'', PFloat (Fin 0)), (''wfp_factor'', PFloat (Fin 0)),
          (''eligible_time'', PFloat (Fin 0)), (''walltime'', PFloat (Fin 0)),
          (''project_priority'', PFloat (Fin 0)), (''nodect'', PFloat (Fin 0)),
          (''total_cpus'', PFloat (Fin 0)), (''enable_backfill'', PFloat (Fin 0)),
          (''backfill_max'', PFloat (Fin 0)), (''backfill_factor'', PFloat (Fin 0)),
          (''enable_fifo'', PFloat (Fin 0)), (''fifo_factor'', PFloat (Fin 0))]"
proof -
  have a: "float_attr lib (PDict []) n = Inr (PFloat (Fin 0))" for n
    by (simp add: float_attr_def bnd_def py_get_def dict_get_def py_float_def)
  have z: "py_int lib ''0'' = Some 0"
    by (simp add: py_int_def is_digit_def digits_val_def)
  have "get_integers lib (PStr ''0:0:0'') = Inr (0, 0, 0)"
    by (simp add: get_integers_def z)
  then have b: "float_seconds lib (PDict []) n = Inr (PFloat (Fin 0))" for n
    by (simp add: float_seconds_def bnd_def py_get_def dict_get_def py_float_def
        string_time_to_seconds_def)
  show ?thesis
    by (simp add: formula_variables_def a b)
qed

text \<open>
  Claim C2, as the code has it.  \<^verbatim>\<open>execute_job_sort_formula\<close> has no parser and no
  evaluator of its own: once the server entry and the job attributes are read, the
  formula text goes as it is to the interpreter's \<^verbatim>\<open>eval\<close>, and what \<^verbatim>\<open>eval\<close> returns or
  raises is the result (the five caught exception classes give \<^verbatim>\<open>0.0\<close>).  The names the
  formula can mention are all the local variables: the fourteen numeric ones, and before
  them \<^verbatim>\<open>server_data\<close>, \<^verbatim>\<open>job_data\<close>, \<^verbatim>\<open>server_dict\<close>, \<^verbatim>\<open>first_server\<close>, \<^verbatim>\<open>formula_str\<close>
  and \<^verbatim>\<open>rl\<close>, which are not numbers.
\<close>

theorem execute_job_sort_formula_calls_eval:
  assumes "py_get server_data ''Server'' (PDict []) = Inr server_dict"
    and "truthy server_dict"
    and "formula_scope lib server_data job_data server_dict = Inr (PStr src, scope)"
  shows "execute_job_sort_formula lib server_data job_data =
           formula_handler (py_eval lib src scope) \<and>
         map fst scope =
           [''server_data'', ''job_data'', ''server_dict'', ''first_server'', ''formula_str'',
            ''rl'', ''base_score'', ''score_boost'', ''enable_wfp'', ''wfp_factor'',
            ''eligible_time'', ''walltime'', ''project_priority'', ''nodect'', ''total_cpus'',
            ''enable_backfill'', ''backfill_max'', ''backfill_factor'', ''enable_fifo'',
            ''fifo_factor''] \<and>
         dict_get scope ''server_data'' = Some server_data \<and>
         dict_get scope ''job_data'' = Some job_data \<and>
         dict_get scope ''formula_str'' = Some (PStr src)"
proof -
  have run: "execute_job_sort_formula lib server_data job_data =
      formula_handler (py_eval lib src scope)"
    using assms by (simp add: execute_job_sort_formula_def bnd_def eval_formula_def)
  obtain first_server rl vars where
    vars: "formula_variables lib job_data rl = Inr vars" and
    scope: "scope = [(''server_data'', server_data), (''job_data'', job_data),
                     (''server_dict'', server_dict), (''first_server'', first_server),
                     (''formula_str'', PStr src), (''rl'', rl)] @ vars"
    using formula_scope_shape [OF assms(3)] by blast
  note names = formula_variables_names [OF vars]
  have n: "map fst scope =
      [''server_data'', ''job_data'', ''server_dict'', ''first_server'', ''formula_str'',
       ''rl'', ''base_score'', ''score_boost'', ''enable_wfp'', ''wfp_factor'',
       ''eligible_time'', ''walltime'', ''project_priority'', ''nodect'', ''total_cpus'',
       ''enable_backfill'', ''backfill_max'', ''backfill_factor'', ''enable_fifo'',
       ''fifo_factor'']"
    by (simp add: scope names)
  have notin: "k \<notin> set (map fst vars) \<Longrightarrow> map_of (rev vars) k = None" for k
    by (simp add: map_of_eq_None_iff)
  have g1: "dict_get scope ''server_data'' = Some server_data"
    unfolding dict_get_def scope by (simp add: map_add_def notin names)
  have g2: "dict_get scope ''job_data'' = Some job_data"
    unfolding dict_get_def scope by (simp add: map_add_def notin names)
  have g3: "dict_get scope ''formula_str'' = Some (PStr src)"
    unfolding dict_get_def scope by (simp add: map_add_def notin names)
  show ?thesis
    using run n g1 g2 g3 by blast
qed

definition formula_server :: "string \<Rightarrow> pyval" where
  \<comment> \<open>server data with one server, whose formula is the given text\<close>
  "formula_server src =
     PDict [(''Server'', PDict [(''pbs'', PDict [(''job_sort_formula'', PStr src)])])]"

definition debug_job :: pyval where
  "debug_job = PDict [(''queue'', PStr ''debug'')]"

definition debug_scope :: "(string \<times> pyval) list" where
  "debug_scope =
     [(''server_data'', formula_server ''job_data''), (''job_data'', debug_job),
      (''server_dict'', PDict [(''pbs'', PDict [(''job_sort_formula'', PStr ''job_data'')])]),
      (''first_server'', PDict [(''job_sort_formula'', PStr ''job_data'')]),
      (''formula_str'', PStr ''job_data''), (''rl'', PDict []),
      (''base_score'', PFloat (Fin 0)), (''score_boost'', PFloat (Fin 0)),
      (''enable_wfp'', PFloat (Fin 0)), (''wfp_factor'', PFloat (Fin 0)),
      (''eligible_time'', PFloat (Fin 0)), (''walltime'', PFloat (Fin 0)),
      (''project_priority'', PFloat (Fin 0)), (''nodect'', PFloat (Fin 0)),
      (''total_cpus'', PFloat (Fin 0)), (''enable_backfill'', PFloat (Fin 0)),
      (''backfill_max'', PFloat (Fin 0)), (''backfill_factor'', PFloat (Fin 0)),
      (''enable_fifo'', PFloat (Fin 0)), (''fifo_factor'', PFloat (Fin 0))]"

lemmas formula_defs =
  execute_job_sort_formula_def formula_handler_def bnd_def py_get_def dict_get_def
  truthy_def formula_scope_def first_value_def formula_variables_def float_attr_def
  float_seconds_def py_float_def string_time_to_seconds_def get_integers_def
  caught_by_formula_def eval_formula_def py_int_def is_digit_def digits_val_def

theorem execute_job_sort_formula_calls_eval_witness:
  "py_get (formula_server ''job_data'') ''Server'' (PDict []) =
     Inr (PDict [(''pbs'', PDict [(''job_sort_formula'', PStr ''job_data'')])]) \<and>
   truthy (PDict [(''pbs'', PDict [(''job_sort_formula'', PStr ''job_data'')])]) \<and>
   formula_scope plain_lib (formula_server ''job_data'') debug_job
     (PDict [(''pbs'', PDict [(''job_sort_formula'', PStr ''job_data'')])]) =
     Inr (PStr ''job_data'', debug_scope) \<and>
   execute_job_sort_formula plain_lib (formula_server ''job_data'') debug_job =
     formula_handler (py_eval plain_lib ''job_data'' debug_scope) \<and>
   dict_get debug_scope ''job_data'' = Some debug_job"
proof -
  let ?sd = "PDict [(''pbs'', PDict [(''job_sort_formula'', PStr ''job_data'')])]"
  have a: "py_get (formula_server ''job_data'') ''Server'' (PDict []) = Inr ?sd"
    by (simp add: formula_server_def py_get_def dict_get_def)
  have b: "truthy ?sd"
    by (simp add: truthy_def)
  have c: "formula_scope plain_lib (formula_server ''job_data'') debug_job ?sd =
      Inr (PStr ''job_data'', debug_scope)"
    by (simp add: formula_server_def debug_job_def debug_scope_def formula_defs)
  show ?thesis
    using a b c execute_job_sort_formula_calls_eval [OF a b c] by blast
qed

text \<open>
  The formula \<^verbatim>\<open>job_data\<close> is no arithmetic over the fourteen numeric variables, and it
  is evaluated all the same: the score of the job is the job's own dict.
\<close>

theorem execute_job_sort_formula_restricted_counterexample:
  "execute_job_sort_formula plain_lib (formula_server ''job_data'') debug_job =
     Inr (PDict [(''queue'', PStr ''debug'')])"
  by (simp add: formula_server_def debug_job_def formula_defs plain_lib_def eval_name_def)

text \<open>
  Claim C3 on the code.  The \<^verbatim>\<open>try\<close> statement catches five exception classes only.  A
  job whose \<^verbatim>\<open>eligible_time\<close> is a JSON number has no \<^verbatim>\<open>split\<close> method: the
  \<^verbatim>\<open>AttributeError\<close> leaves the function, whatever the library does.  A formula that
  names a variable the function does not define makes \<^verbatim>\<open>eval\<close> raise \<^verbatim>\<open>NameError\<close>, which
  leaves the function as well.  Neither call returns \<^verbatim>\<open>0.0\<close>.
\<close>

theorem execute_job_sort_formula_propagates:
  "execute_job_sort_formula lib (formula_server ''base_score'')
     (PDict [(''eligible_time'', PInt 3600)]) = Inl AttributeError \<and>
   execute_job_sort_formula (lib\<lparr>py_eval := \<lambda>src scope. Inl NameError\<rparr>)
     (formula_server ''job_priority'') (PDict []) = Inl NameError"
  by (simp add: formula_server_def formula_defs)

section \<open>Classifying and converting column values\<close>

fun nat_digits :: "nat \<Rightarrow> string" where
  "nat_digits n =
     (if n < 10 then [char_of (48 + n)]
      else nat_digits (n div 10) @ [char_of (48 + n mod 10)])"

definition str_int :: "int \<Rightarrow> string" where
  \<comment> \<open>\<^verbatim>\<open>str(i)\<close> for an integer\<close>
  "str_int i = (if i < 0 then CHR ''-'' # nat_digits (nat (- i)) else nat_digits (nat i))"

definition py_str :: "'dt pylib \<Rightarrow> pyval \<Rightarrow> string" where
  \<comment> \<open>\<^verbatim>\<open>str(v)\<close>\<close>
  "py_str lib v =
     (case v of
        PStr s \<Rightarrow> s
      | PNone \<Rightarrow> ''None''
      | PBool b \<Rightarrow> (if b then ''True'' else ''False'')
      | PInt i \<Rightarrow> str_int i
      | _ \<Rightarrow> str_of lib v)"

definition PBS_TIME_FORMATS :: "string list" where
  "PBS_TIME_FORMATS = [''%a %b %d %H:%M:%S %Y'', ''%a %b %d %H:%M:%S %Z %Y'']"

fun first_some :: "('a \<Rightarrow> 'b option) \<Rightarrow> 'a list \<Rightarrow> 'b option" where
  "first_some f [] = None"
| "first_some f (x # xs) = (case f x of None \<Rightarrow> first_some f xs | Some y \<Rightarrow> Some y)"

definition parse_pbs_time :: "'dt pylib \<Rightarrow> pyval \<Rightarrow> exn + 'dt" where
  \<comment> \<open>a falsy argument raises \<^verbatim>\<open>ValueError\<close> at once; \<^verbatim>\<open>strptime\<close> refuses an argument
      that is no string with \<^verbatim>\<open>TypeError\<close>, which the loop does not catch\<close>
  "parse_pbs_time lib timestr =
     (if \<not> truthy timestr then Inl ValueError
      else case timestr of
        PStr s \<Rightarrow>
          (case first_some (strptime lib s) PBS_TIME_FORMATS of
             Some d \<Rightarrow> Inr d
           | None \<Rightarrow>
               (case py_int lib s of
                  None \<Rightarrow> Inl ValueError
                | Some i \<Rightarrow>
                    (case fromtimestamp lib i of None \<Rightarrow> Inl ValueError | Some d \<Rightarrow> Inr d)))
      | _ \<Rightarrow> Inl TypeError)"

datatype vtype = VEmpty | VTime | VDatetime | VSubmitted_time | VNumeric | VString

definition two_digits :: "char \<Rightarrow> char \<Rightarrow> bool" where
  "two_digits a b = (is_digit a \<and> is_digit b)"

definition matches_time :: "string \<Rightarrow> bool" where
  \<comment> \<open>\<^verbatim>\<open>re.match(r'^\d+:\d{2}:\d{2}$', s)\<close> for a stripped string\<close>
  "matches_time s =
     (takeWhile is_digit s \<noteq> [] \<and>
      (case dropWhile is_digit s of
         [c1, m1, m2, c2, s1, s2] \<Rightarrow>
           c1 = CHR '':'' \<and> two_digits m1 m2 \<and> c2 = CHR '':'' \<and> two_digits s1 s2
       | _ \<Rightarrow> False))"

definition matches_compact :: "string \<Rightarrow> bool" where
  \<comment> \<open>\<^verbatim>\<open>re.match(r'^\d{2}/\d{2}\s+\d{2}:\d{2}$', s)\<close> for a stripped string\<close>
  "matches_compact s =
     (case s of
        m1 # m2 # sl # d1 # d2 # rest \<Rightarrow>
          two_digits m1 m2 \<and> sl = CHR ''/'' \<and> two_digits d1 d2 \<and>
          takeWhile is_space rest \<noteq> [] \<and>
          (case dropWhile is_space rest of
             [h1, h2, c, n1, n2] \<Rightarrow> two_digits h1 h2 \<and> c = CHR '':'' \<and> two_digits n1 n2
           | _ \<Rightarrow> False)
      | _ \<Rightarrow> False)"

definition is_empty_value :: "pyval \<Rightarrow> bool" where
  \<comment> \<open>\<^verbatim>\<open>value is None or value == '--' or value == ''\<close>\<close>
  "is_empty_value v = (v = PNone \<or> v = PStr ''--'' \<or> v = PStr [])"

definition detect_value_type :: "'dt pylib \<Rightarrow> pyval \<Rightarrow> vtype" where
  "detect_value_type lib v =
     (if is_empty_value v then VEmpty
      else let str_value = strip (py_str lib v)
           in if matches_time str_value then VTime
              else if list_ex (\<lambda>fmt. returns (parse_pbs_time lib (PStr str_value))) PBS_TIME_FORMATS
                then VDatetime
              else if matches_compact str_value then VSubmitted_time
              else if float_str lib str_value \<noteq> None then VNumeric
              else VString)"

text \<open>
  The second component of a sort key.  The keys of \<^verbatim>\<open>convert_value_for_sorting\<close> are
  integers, floats and strings.  The sorts of \<^verbatim>\<open>print_jobs\<close> that take a field of
  the row as it is can meet any value: \<open>KOther\<close> is a key that is \<^verbatim>\<open>None\<close> or a
  dict, which \<^verbatim>\<open><\<close> orders against nothing, itself included, and \<open>KList\<close> is a list,
  whose order is not modelled.
\<close>

datatype keyval = KInt int | KFloat pyfloat | KStr string | KOther | KList

definition caught_by_convert :: "exn \<Rightarrow> bool" where
  \<comment> \<open>\<^verbatim>\<open>except (ValueError, TypeError, AttributeError)\<close>\<close>
  "caught_by_convert e = (e = ValueError \<or> e = TypeError \<or> e = AttributeError)"

definition convert_body :: "'dt pylib \<Rightarrow> vtype \<Rightarrow> string \<Rightarrow> exn + keyval" where
  \<comment> \<open>the body of the \<^verbatim>\<open>try\<close> statement: the second component of the key\<close>
  "convert_body lib value_type str_value =
     (case value_type of
        VTime \<Rightarrow> bnd (string_time_to_seconds lib (PStr str_value)) (\<lambda>n. Inr (KInt n))
      | VDatetime \<Rightarrow>
          bnd (parse_pbs_time lib (PStr str_value))
            (\<lambda>d. bnd (timestamp lib d) (\<lambda>f. Inr (KFloat f)))
      | VSubmitted_time \<Rightarrow>
          (case strptime lib (str_int (now_year lib) @ '' '' @ str_value) ''%Y %m/%d %H:%M'' of
             None \<Rightarrow> Inl ValueError
           | Some d \<Rightarrow> bnd (timestamp lib d) (\<lambda>f. Inr (KFloat f)))
      | VNumeric \<Rightarrow>
          (case float_str lib str_value of None \<Rightarrow> Inl ValueError | Some f \<Rightarrow> Inr (KFloat f))
      | _ \<Rightarrow> Inr (KStr (lower str_value)))"

definition convert_value_for_sorting ::
  "'dt pylib \<Rightarrow> pyval \<Rightarrow> vtype option \<Rightarrow> bool \<Rightarrow> exn + (nat \<times> keyval)" where
  "convert_value_for_sorting lib v value_type reverse =
     (let vt = (case value_type of None \<Rightarrow> detect_value_type lib v | Some t \<Rightarrow> t);
          valid_flag = (if reverse then 1 else 0);
          empty_flag = (if reverse then 0 else 1)
      in if vt = VEmpty then Inr (empty_flag, KInt 0)
         else case convert_body lib vt (strip (py_str lib v)) of
                Inr k \<Rightarrow> Inr (valid_flag, k)
              | Inl e \<Rightarrow> if caught_by_convert e then Inr (empty_flag, KInt 0) else Inl e)"

lemmas string_defs =
  strip_def lstrip_def rstrip_def is_space_def is_digit_def two_digits_def

lemma detect_value_type_order:
  "detect_value_type lib v =
     (if v = PNone \<or> v = PStr ''--'' \<or> v = PStr [] then VEmpty
      else if matches_time (strip (py_str lib v)) then VTime
      else if returns (parse_pbs_time lib (PStr (strip (py_str lib v)))) then VDatetime
      else if matches_compact (strip (py_str lib v)) then VSubmitted_time
      else if float_str lib (strip (py_str lib v)) \<noteq> None then VNumeric
      else VString)"
  by (simp add: detect_value_type_def is_empty_value_def Let_def PBS_TIME_FORMATS_def)

lemma digits_not_space: "is_digit c \<Longrightarrow> \<not> is_space c"
  by (auto simp: is_digit_def is_space_def Let_def)

lemma strip_digits:
  assumes "s \<noteq> []" and "list_all is_digit s"
  shows "strip s = s"
proof -
  have h: "\<not> is_space (hd s)"
    using assms by (cases s) (auto simp: digits_not_space)
  then have l: "lstrip s = s"
    using assms(1) unfolding lstrip_def by (cases s) auto
  have "rev s \<noteq> []" and "\<not> is_space (hd (rev s))"
    using assms by (auto simp: hd_rev list_all_iff digits_not_space)
  then have "dropWhile is_space (rev s) = rev s"
    by (cases "rev s") auto
  then have "rstrip s = s"
    unfolding rstrip_def by simp
  with l show ?thesis
    by (simp add: strip_def)
qed

lemma digits_no_time: "list_all is_digit s \<Longrightarrow> \<not> matches_time s"
proof -
  assume "list_all is_digit s"
  then have d: "dropWhile is_digit s = []"
    by (simp add: list_all_iff)
  show ?thesis
    unfolding matches_time_def d by simp
qed

text \<open>
  Claim C6 on the code.  The classifier tests in the order of the claim, but its third
  test is not the two text formats of \<^verbatim>\<open>PBS_TIME_FORMATS\<close>: it is whatever
  \<^verbatim>\<open>parse_pbs_time\<close> returns on, and the fallback of that function (lines 55 to 57)
  takes the text of an integer as seconds since the epoch.  So every value whose text is
  a string of digits that \<^verbatim>\<open>fromtimestamp\<close> takes is a datetime, whatever \<^verbatim>\<open>strptime\<close>
  and \<^verbatim>\<open>float\<close> make of it: the numeric test, which the comment of line 531 announces
  for integers and floats, is never reached for it.
\<close>

theorem detect_value_type_integer_is_datetime:
  assumes "\<not> is_empty_value v" and "py_str lib v = s"
    and "s \<noteq> []" and "list_all is_digit s" and "length s \<le> 4300"
    and "fromtimestamp lib (int (digits_val s)) \<noteq> None"
  shows "detect_value_type lib v = VDatetime"
proof -
  have st: "strip (py_str lib v) = s"
    using assms(2,3,4) by (simp add: strip_digits)
  have nt: "\<not> matches_time s"
    by (rule digits_no_time [OF assms(4)])
  have i: "py_int lib s = Some (int (digits_val s))"
    using assms(3,4,5) by (simp add: py_int_def)
  have "returns (parse_pbs_time lib (PStr s))"
    using assms(3,6) i
    by (auto simp: parse_pbs_time_def truthy_def returns_def split: option.splits)
  then show ?thesis
    using assms(1) st nt
    by (simp add: detect_value_type_order is_empty_value_def)
qed

theorem detect_value_type_integer_is_datetime_witness:
  "first_some (strptime epoch_lib ''42'') PBS_TIME_FORMATS = None \<and>
   float_str epoch_lib ''42'' = Some (Fin 42) \<and>
   detect_value_type epoch_lib (PStr ''42'') = VDatetime \<and>
   py_str epoch_lib (PInt 64) = ''64'' \<and>
   float_str epoch_lib ''64'' = Some (Fin 64) \<and>
   detect_value_type epoch_lib (PInt 64) = VDatetime"
proof -
  have a: "first_some (strptime epoch_lib ''42'') PBS_TIME_FORMATS = None"
    by (simp add: epoch_lib_def plain_lib_def PBS_TIME_FORMATS_def)
  have b: "float_str epoch_lib ''42'' = Some (Fin 42)"
    by (simp add: epoch_lib_def plain_lib_def is_digit_def digits_val_def)
  have c: "detect_value_type epoch_lib (PStr ''42'') = VDatetime"
    using detect_value_type_integer_is_datetime [of "PStr ''42''" epoch_lib "''42''"]
    by (simp add: is_empty_value_def py_str_def is_digit_def epoch_lib_def plain_lib_def)
  have d: "py_str epoch_lib (PInt 64) = ''64''"
    by code_simp
  have e: "float_str epoch_lib ''64'' = Some (Fin 64)"
    by (simp add: epoch_lib_def plain_lib_def is_digit_def digits_val_def)
  have f: "detect_value_type epoch_lib (PInt 64) = VDatetime"
    using detect_value_type_integer_is_datetime [of "PInt 64" epoch_lib "''64''"] d
    by (simp add: is_empty_value_def is_digit_def epoch_lib_def plain_lib_def)
  show ?thesis
    by (rule conjI [OF a conjI [OF b conjI [OF c conjI [OF d conjI [OF e f]]]]])
qed

section \<open>Sorting\<close>

text \<open>
  A sort key is the pair \<^verbatim>\<open>(flag, key)\<close> that \<^verbatim>\<open>convert_value_for_sorting\<close> returns.
  Python compares two tuples at the first position where they are not equal; an
  integer and a float compare as numbers, two strings by code points, and a number
  against a string raises \<^verbatim>\<open>TypeError\<close>.
\<close>

type_synonym sortkey = "nat \<times> keyval"

definition num_of :: "keyval \<Rightarrow> pyfloat option" where
  "num_of k = (case k of KInt i \<Rightarrow> Some (Fin (of_int i)) | KFloat f \<Rightarrow> Some f | _ \<Rightarrow> None)"

definition float_lt :: "pyfloat \<Rightarrow> pyfloat \<Rightarrow> bool" where
  \<comment> \<open>\<^verbatim>\<open><\<close> on floats: false whenever a NaN takes part\<close>
  "float_lt a b =
     (case (a, b) of
        (NaN, _) \<Rightarrow> False
      | (_, NaN) \<Rightarrow> False
      | (Fin x, Fin y) \<Rightarrow> x < y
      | (NegInf, NegInf) \<Rightarrow> False
      | (NegInf, _) \<Rightarrow> True
      | (_, NegInf) \<Rightarrow> False
      | (PosInf, _) \<Rightarrow> False
      | (Fin x, PosInf) \<Rightarrow> True)"

definition float_eq :: "pyfloat \<Rightarrow> pyfloat \<Rightarrow> bool" where
  \<comment> \<open>\<^verbatim>\<open>==\<close> on floats: a NaN equals nothing\<close>
  "float_eq a b = (a = b \<and> a \<noteq> NaN)"

definition keyval_eq :: "keyval \<Rightarrow> keyval \<Rightarrow> bool" where
  "keyval_eq a b =
     (case (a, b) of
        (KStr s, KStr t) \<Rightarrow> s = t
      | _ \<Rightarrow>
          (case (num_of a, num_of b) of
             (Some x, Some y) \<Rightarrow> float_eq x y
           | _ \<Rightarrow> False))"

definition keyval_lt :: "keyval \<Rightarrow> keyval \<Rightarrow> exn + bool" where
  "keyval_lt a b =
     (case (a, b) of
        (KStr s, KStr t) \<Rightarrow> Inr (s < t)
      | _ \<Rightarrow>
          (case (num_of a, num_of b) of
             (Some x, Some y) \<Rightarrow> Inr (float_lt x y)
           | _ \<Rightarrow> Inl TypeError))"

definition key_lt :: "sortkey \<Rightarrow> sortkey \<Rightarrow> exn + bool" where
  \<comment> \<open>\<^verbatim>\<open>a < b\<close> on two key tuples\<close>
  "key_lt a b =
     (if fst a \<noteq> fst b then Inr (fst a < fst b)
      else if keyval_eq (snd a) (snd b) then Inr False
      else keyval_lt (snd a) (snd b))"

definition unordered_key :: "sortkey \<Rightarrow> bool" where
  \<comment> \<open>a key whose place in the order is not modelled\<close>
  "unordered_key a = (snd a = KFloat NaN \<or> snd a = KList)"

text \<open>
  Where no key is a NaN and no two keys raise when compared, the keys are linearly
  ordered; \<open>rank\<close> maps them into a linear order of HOL, so that the sort of the library
  can stand for the sort of Python.
\<close>

definition rank :: "sortkey \<Rightarrow> nat \<times> nat \<times> real \<times> string" where
  "rank a =
     (case snd a of
        KInt i \<Rightarrow> (fst a, 1, of_int i, [])
      | KFloat (Fin r) \<Rightarrow> (fst a, 1, r, [])
      | KFloat NegInf \<Rightarrow> (fst a, 0, 0, [])
      | KFloat PosInf \<Rightarrow> (fst a, 2, 0, [])
      | KFloat NaN \<Rightarrow> (fst a, 3, 0, [])
      | KStr s \<Rightarrow> (fst a, 1, 0, s)
      | _ \<Rightarrow> (fst a, 3, 0, []))"

datatype 'a sort_result = Sorted "'a list" | SortRaised exn | SortUnmodelled

fun first_error :: "(exn + 'k) list \<Rightarrow> exn option" where
  "first_error [] = None"
| "first_error (Inl e # rs) = Some e"
| "first_error (Inr k # rs) = first_error rs"

definition raising_pair :: "sortkey list \<Rightarrow> bool" where
  "raising_pair ks = list_ex (\<lambda>a. list_ex (\<lambda>b. \<not> returns (key_lt a b)) ks) ks"

text \<open>
  \<^verbatim>\<open>xs.sort(key=key, reverse=reverse)\<close>.  The keys are computed first, in list order, and
  an exception of the key function ends the sort.  A list of fewer than two elements is
  compared with nothing.  Otherwise: with a NaN or a list among the keys the outcome
  depends on which comparisons the algorithm makes, and is not modelled; with two keys
  that cannot be compared the sort raises \<^verbatim>\<open>TypeError\<close> (keys that raise are a
  number and a string under the same flag, or a \<open>KOther\<close> key and any key, and no
  sequence of other comparisons can order the ones against the others); in every other
  case the sort is the stable
  sort by the keys, and with \<^verbatim>\<open>reverse\<close> the list is reversed, sorted and reversed
  again, which keeps elements of equal keys in their first order.
\<close>

definition py_sort :: "('a \<Rightarrow> exn + sortkey) \<Rightarrow> bool \<Rightarrow> 'a list \<Rightarrow> 'a sort_result" where
  "py_sort key reverse xs =
     (case first_error (map key xs) of
        Some e \<Rightarrow> SortRaised e
      | None \<Rightarrow>
          if length xs \<le> 1 then Sorted xs
          else if list_ex unordered_key (map (projr \<circ> key) xs) then SortUnmodelled
          else if raising_pair (map (projr \<circ> key) xs) then SortRaised TypeError
          else if reverse then Sorted (rev (sort_key (rank \<circ> projr \<circ> key) (rev xs)))
          else Sorted (sort_key (rank \<circ> projr \<circ> key) xs))"

definition sort_values :: "'dt pylib \<Rightarrow> bool \<Rightarrow> pyval list \<Rightarrow> pyval sort_result" where
  \<comment> \<open>\<^verbatim>\<open>sort(key=lambda x: convert_value_for_sorting(x, reverse=r), reverse=r)\<close> on the
      values of one column\<close>
  "sort_values lib reverse vals =
     py_sort (\<lambda>v. convert_value_for_sorting lib v None reverse) reverse vals"



subsection \<open>Valid and empty values\<close>

text \<open>
  The two flags of \<^verbatim>\<open>convert_value_for_sorting\<close> depend on the direction, the rest of
  the key does not: \<open>value_key\<close> is that rest, \<open>None\<close> for a value that gets the empty
  flag (an empty value, or one whose conversion raised a caught exception).
\<close>

definition value_key :: "'dt pylib \<Rightarrow> pyval \<Rightarrow> exn + keyval option" where
  "value_key lib v =
     (if detect_value_type lib v = VEmpty then Inr None
      else case convert_body lib (detect_value_type lib v) (strip (py_str lib v)) of
             Inr k \<Rightarrow> Inr (Some k)
           | Inl e \<Rightarrow> if caught_by_convert e then Inr None else Inl e)"

definition is_valid_value :: "'dt pylib \<Rightarrow> pyval \<Rightarrow> bool" where
  "is_valid_value lib v = (case value_key lib v of Inr (Some k) \<Rightarrow> True | _ \<Rightarrow> False)"

definition the_key :: "'dt pylib \<Rightarrow> pyval \<Rightarrow> keyval" where
  "the_key lib v = (case value_key lib v of Inr (Some k) \<Rightarrow> k | _ \<Rightarrow> KInt 0)"

lemma convert_value_key:
  "convert_value_for_sorting lib v None r =
     (case value_key lib v of
        Inl e \<Rightarrow> Inl e
      | Inr None \<Rightarrow> Inr (if r then 0 else 1, KInt 0)
      | Inr (Some k) \<Rightarrow> Inr (if r then 1 else 0, k))"
  by (simp add: convert_value_for_sorting_def value_key_def Let_def split: sum.splits)

lemma partition_sorted:
  fixes f :: "'a \<Rightarrow> 'k::linorder"
  assumes "sorted (map f xs)"
    and "\<And>x y. x \<in> set xs \<Longrightarrow> y \<in> set xs \<Longrightarrow> P x \<Longrightarrow> \<not> P y \<Longrightarrow> f x < f y"
  shows "xs = filter P xs @ filter (\<lambda>x. \<not> P x) xs"
  using assms
proof (induction xs)
  case Nil
  then show ?case by simp
next
  case (Cons x xs)
  have ih: "xs = filter P xs @ filter (\<lambda>x. \<not> P x) xs"
    using Cons by auto
  show ?case
  proof (cases "P x")
    case True
    then show ?thesis using ih by simp
  next
    case False
    have "\<not> P y" if "y \<in> set xs" for y
    proof
      assume "P y"
      then have "f y < f x" using Cons.prems(2) [of y x] that False by simp
      moreover have "f x \<le> f y" using Cons.prems(1) that by auto
      ultimately show False by simp
    qed
    then have "filter P xs = []" "filter (\<lambda>x. \<not> P x) xs = xs"
      by (auto simp: filter_empty_conv filter_id_conv)
    then show ?thesis using False by simp
  qed
qed

lemma first_error_None: "first_error rs = None \<Longrightarrow> r \<in> set rs \<Longrightarrow> returns r"
  by (induction rs rule: first_error.induct) (auto simp: returns_def)

lemma keyval_lt_rank:
  assumes "returns (keyval_lt a b)" "a \<noteq> KFloat NaN" "b \<noteq> KFloat NaN"
  shows "keyval_lt a b = Inr (rank (f, a) < rank (f, b))"
proof (cases a)
  case (KInt i)
  then show ?thesis using assms
    by (cases b; cases "case b of KFloat x \<Rightarrow> x | _ \<Rightarrow> NaN")
       (auto simp: keyval_lt_def num_of_def float_lt_def rank_def returns_def)
next
  case (KFloat x)
  then show ?thesis using assms
    by (cases b; cases x; cases "case b of KFloat x \<Rightarrow> x | _ \<Rightarrow> NaN")
       (auto simp: keyval_lt_def num_of_def float_lt_def rank_def returns_def)
next
  case (KStr s)
  then show ?thesis using assms
    by (cases b) (auto simp: keyval_lt_def num_of_def rank_def returns_def)
next
  case KOther
  then show ?thesis using assms
    by (cases b) (auto simp: keyval_lt_def num_of_def returns_def)
next
  case KList
  then show ?thesis using assms
    by (cases b) (auto simp: keyval_lt_def num_of_def returns_def)
qed

lemma key_lt_same_flag:
  assumes "returns (key_lt (f, a) (f, b))"
  shows "returns (keyval_lt a b)"
  using assms
  by (cases a; cases b)
     (auto simp: key_lt_def keyval_eq_def keyval_lt_def num_of_def returns_def split: if_splits)

subsection \<open>The order of a sorted column\<close>

lemma short_sort:
  fixes f :: "'a \<Rightarrow> 'k::linorder"
  shows "length xs \<le> 1 \<Longrightarrow> sort_key f xs = xs \<and> rev (sort_key f (rev xs)) = xs"
  by (cases xs) auto

lemma short_sorted_wrt: "length xs \<le> 1 \<Longrightarrow> sorted_wrt P xs"
  by (cases xs) auto

definition key_of :: "'dt pylib \<Rightarrow> bool \<Rightarrow> pyval \<Rightarrow> sortkey" where
  "key_of lib r v = projr (convert_value_for_sorting lib v None r)"

lemma key_of_valid:
  "is_valid_value lib v \<Longrightarrow> key_of lib r v = (if r then 1 else 0, the_key lib v)"
  by (auto simp: key_of_def convert_value_key is_valid_value_def the_key_def
      split: sum.splits option.splits)

lemma key_of_invalid:
  "returns (value_key lib v) \<Longrightarrow> \<not> is_valid_value lib v \<Longrightarrow>
   key_of lib r v = (if r then 0 else 1, KInt 0)"
  by (auto simp: key_of_def convert_value_key is_valid_value_def returns_def
      split: sum.splits option.splits)

lemma sort_values_Sorted:
  assumes "sort_values lib r vals = Sorted S"
  shows "\<forall>v \<in> set vals. returns (value_key lib v)"
    and "S = (if r then rev (sort_key (rank \<circ> key_of lib r) (rev vals))
              else sort_key (rank \<circ> key_of lib r) vals)"
    and "2 \<le> length vals \<Longrightarrow> \<not> list_ex unordered_key (map (key_of lib r) vals)"
    and "2 \<le> length vals \<Longrightarrow> \<not> raising_pair (map (key_of lib r) vals)"
proof -
  let ?K = "\<lambda>v. convert_value_for_sorting lib v None r"
  have fe: "first_error (map ?K vals) = None"
    using assms unfolding sort_values_def py_sort_def by (auto split: option.splits)
  show "\<forall>v \<in> set vals. returns (value_key lib v)"
  proof
    fix v assume "v \<in> set vals"
    then have "returns (?K v)" using first_error_None [OF fe] by auto
    then show "returns (value_key lib v)"
      by (auto simp: convert_value_key returns_def split: sum.splits)
  qed
  have ko: "projr \<circ> ?K = key_of lib r"
    by (auto simp: key_of_def fun_eq_iff)
  have ko2: "rank \<circ> projr \<circ> ?K = rank \<circ> key_of lib r"
    by (auto simp: key_of_def fun_eq_iff)
  show "S = (if r then rev (sort_key (rank \<circ> key_of lib r) (rev vals))
              else sort_key (rank \<circ> key_of lib r) vals)"
  proof (cases "length vals \<le> 1")
    case True
    then have "S = vals"
      using assms fe unfolding sort_values_def py_sort_def by simp
    then show ?thesis using short_sort [OF True, of "rank \<circ> key_of lib r"]
      by (cases r) auto
  next
    case False
    then show ?thesis
      using assms fe unfolding sort_values_def py_sort_def ko ko2
      by (auto split: if_splits)
  qed
  show "2 \<le> length vals \<Longrightarrow> \<not> list_ex unordered_key (map (key_of lib r) vals)"
    using assms fe unfolding sort_values_def py_sort_def ko ko2
    by (auto split: if_splits)
  show "2 \<le> length vals \<Longrightarrow> \<not> raising_pair (map (key_of lib r) vals)"
    using assms fe unfolding sort_values_def py_sort_def ko ko2
    by (auto split: if_splits)
qed

lemma rank_fst: "fst (rank (f, k)) = f"
  by (cases k; cases "case k of KFloat x \<Rightarrow> x | _ \<Rightarrow> NaN") (auto simp: rank_def)

lemma rank_snd: "snd (rank (f, k)) = snd (rank (g, k))"
  by (cases k; cases "case k of KFloat x \<Rightarrow> x | _ \<Rightarrow> NaN") (auto simp: rank_def)

lemma rank_less_flag: "(rank (f, a) < rank (f, b)) = (rank (g, a) < rank (g, b))"
proof -
  have "(rank (h, a) < rank (h, b)) = (snd (rank (0, a)) < snd (rank (0, b)))" for h
    using rank_fst [of h a] rank_fst [of h b] rank_snd [of h a 0] rank_snd [of h b 0]
    by (cases "rank (h, a)"; cases "rank (h, b)") auto
  then show ?thesis by simp
qed

lemma rank_flag_less: "f < g \<Longrightarrow> rank (f, a) < rank (g, b)"
  using rank_fst [of f a] rank_fst [of g b]
  by (cases "rank (f, a)"; cases "rank (g, b)") auto

text \<open>Facts about the keys of a list whose sort ends well.\<close>

lemma valid_keys_comparable:
  assumes s: "sort_values lib r vals = Sorted S" and l: "2 \<le> length vals"
    and x: "x \<in> set vals" "is_valid_value lib x"
    and y: "y \<in> set vals" "is_valid_value lib y"
  shows "keyval_lt (the_key lib x) (the_key lib y)
           = Inr (rank (f, the_key lib x) < rank (f, the_key lib y))"
proof -
  let ?fl = "if r then 1 else 0 :: nat"
  have nn: "\<not> list_ex unordered_key (map (key_of lib r) vals)"
    and nr: "\<not> raising_pair (map (key_of lib r) vals)"
    using sort_values_Sorted(3,4) [OF s l] by auto
  have kx: "key_of lib r x = (?fl, the_key lib x)" and ky: "key_of lib r y = (?fl, the_key lib y)"
    using key_of_valid [OF x(2), of r] key_of_valid [OF y(2), of r] by simp_all
  have "returns (key_lt (key_of lib r x) (key_of lib r y))"
    using nr x(1) y(1) unfolding raising_pair_def list_ex_iff by auto
  then have ret: "returns (keyval_lt (the_key lib x) (the_key lib y))"
    unfolding kx ky by (rule key_lt_same_flag)
  have "\<not> unordered_key (key_of lib r x)" "\<not> unordered_key (key_of lib r y)"
    using nn x(1) y(1) unfolding list_ex_iff by auto
  then have "the_key lib x \<noteq> KFloat NaN" "the_key lib y \<noteq> KFloat NaN"
    unfolding kx ky unordered_key_def by auto
  then show ?thesis using keyval_lt_rank [OF ret] by simp
qed

lemma ascending_part:
  assumes s: "sort_values lib False vals = Sorted A"
  shows "A = filter (is_valid_value lib) A @ filter (\<lambda>v. \<not> is_valid_value lib v) vals"
    and "mset A = mset vals"
    and "sorted_wrt (\<lambda>x y. keyval_lt (the_key lib y) (the_key lib x) = Inr False)
           (filter (is_valid_value lib) A)"
proof -
  let ?V = "is_valid_value lib"
  let ?f = "rank \<circ> key_of lib False"
  have ret: "\<forall>v \<in> set vals. returns (value_key lib v)"
    and A: "A = sort_key ?f vals"
    using sort_values_Sorted(1,2) [OF s] by auto
  have setA: "set A = set vals" by (simp add: A)
  have srt: "sorted (map ?f A)" by (simp add: A)
  have fv: "?f v = rank (0, the_key lib v)" if "?V v" for v
    using key_of_valid [OF that, of False] by simp
  have fi: "?f v = rank (1, KInt 0)" if "v \<in> set vals" "\<not> ?V v" for v
    using key_of_invalid [of lib v False] ret that by simp
  have sep: "?f x < ?f y" if "x \<in> set A" "y \<in> set A" "?V x" "\<not> ?V y" for x y
    using fv [OF that(3)] fi [of y] that setA by (simp add: rank_flag_less)
  have part: "A = filter ?V A @ filter (\<lambda>v. \<not> ?V v) A"
    using partition_sorted [OF srt sep] by blast
  have ch: "(\<not> ?V v) = (?f v = rank (1, KInt 0))" if "v \<in> set vals" for v
  proof (cases "?V v")
    case True
    then show ?thesis using fv [OF True] rank_fst [of 0 "the_key lib v"] rank_fst [of 1 "KInt 0"]
      by (metis zero_neq_one)
  next
    case False
    then show ?thesis using fi [OF that] by simp
  qed
  have "filter (\<lambda>v. \<not> ?V v) A = filter (\<lambda>v. ?f v = rank (1, KInt 0)) A"
    using ch setA by (intro filter_cong) auto
  also have "\<dots> = filter (\<lambda>v. ?f v = rank (1, KInt 0)) vals"
    unfolding A by (rule sort_key_stable)
  also have "\<dots> = filter (\<lambda>v. \<not> ?V v) vals"
    using ch by (intro filter_cong) auto
  finally show "A = filter ?V A @ filter (\<lambda>v. \<not> ?V v) vals"
    using part by simp
  show "mset A = mset vals" by (simp add: A)
  show "sorted_wrt (\<lambda>x y. keyval_lt (the_key lib y) (the_key lib x) = Inr False) (filter ?V A)"
  proof (cases "2 \<le> length vals")
    case False
    then have "length (filter ?V A) \<le> 1"
      using length_filter_le [of ?V A] by (simp add: A)
    then show ?thesis by (rule short_sorted_wrt)
  next
    case True
    have "sorted_wrt (\<lambda>x y. ?f x \<le> ?f y) A"
      using srt by (simp add: sorted_map)
    then have "sorted_wrt (\<lambda>x y. ?f x \<le> ?f y) (filter ?V A)"
      by (rule sorted_wrt_filter)
    then show ?thesis
    proof (rule sorted_wrt_mono_rel [rotated])
      fix x y assume x: "x \<in> set (filter ?V A)" and y: "y \<in> set (filter ?V A)"
        and le: "?f x \<le> ?f y"
      have "\<not> rank (0, the_key lib y) < rank (0, the_key lib x)"
        using le fv x y by auto
      then show "keyval_lt (the_key lib y) (the_key lib x) = Inr False"
        using valid_keys_comparable [OF s True, of y x 0] x y setA by auto
    qed
  qed
qed

lemma descending_part:
  assumes s: "sort_values lib True vals = Sorted D"
  shows "D = filter (is_valid_value lib) D @ filter (\<lambda>v. \<not> is_valid_value lib v) vals"
    and "mset D = mset vals"
    and "sorted_wrt (\<lambda>x y. keyval_lt (the_key lib x) (the_key lib y) = Inr False)
           (filter (is_valid_value lib) D)"
proof -
  let ?V = "is_valid_value lib"
  let ?f = "rank \<circ> key_of lib True"
  let ?S = "sort_key ?f (rev vals)"
  have ret: "\<forall>v \<in> set vals. returns (value_key lib v)"
    and D: "D = rev ?S"
    using sort_values_Sorted(1,2) [OF s] by auto
  have setS: "set ?S = set vals" by simp
  have setD: "set D = set vals" by (simp add: D)
  have srt: "sorted (map ?f ?S)" by simp
  have fv: "?f v = rank (1, the_key lib v)" if "?V v" for v
    using key_of_valid [OF that, of True] by simp
  have fi: "?f v = rank (0, KInt 0)" if "v \<in> set vals" "\<not> ?V v" for v
    using key_of_invalid [of lib v True] ret that by simp
  have sep: "?f x < ?f y" if "x \<in> set ?S" "y \<in> set ?S" "\<not> ?V x" "\<not> \<not> ?V y" for x y
    using fv [of y] fi [of x] that by (simp add: rank_flag_less)
  have part: "?S = filter (\<lambda>v. \<not> ?V v) ?S @ filter (\<lambda>v. \<not> \<not> ?V v) ?S"
    using partition_sorted [OF srt, of "\<lambda>v. \<not> ?V v"] sep by blast
  have "D = rev (filter (\<lambda>v. \<not> ?V v) ?S @ filter ?V ?S)"
    using part D by simp
  then have part': "D = filter ?V D @ filter (\<lambda>v. \<not> ?V v) D"
    by (simp add: D rev_filter)
  have ch: "(\<not> ?V v) = (?f v = rank (0, KInt 0))" if "v \<in> set vals" for v
  proof (cases "?V v")
    case True
    then show ?thesis using fv [OF True] rank_fst [of 1 "the_key lib v"] rank_fst [of 0 "KInt 0"]
      by (metis zero_neq_one)
  next
    case False
    then show ?thesis using fi [OF that] by simp
  qed
  have "filter (\<lambda>v. \<not> ?V v) D = rev (filter (\<lambda>v. \<not> ?V v) ?S)"
    by (simp add: D rev_filter)
  also have "filter (\<lambda>v. \<not> ?V v) ?S = filter (\<lambda>v. ?f v = rank (0, KInt 0)) ?S"
    using ch by (intro filter_cong) auto
  also have "\<dots> = filter (\<lambda>v. ?f v = rank (0, KInt 0)) (rev vals)"
    by (rule sort_key_stable)
  also have "\<dots> = filter (\<lambda>v. \<not> ?V v) (rev vals)"
    using ch by (intro filter_cong) auto
  finally have "filter (\<lambda>v. \<not> ?V v) D = filter (\<lambda>v. \<not> ?V v) vals"
    by (simp add: rev_filter)
  then show "D = filter ?V D @ filter (\<lambda>v. \<not> ?V v) vals"
    using part' by simp
  show "mset D = mset vals" by (simp add: D)
  show "sorted_wrt (\<lambda>x y. keyval_lt (the_key lib x) (the_key lib y) = Inr False) (filter ?V D)"
  proof (cases "2 \<le> length vals")
    case False
    then have "length (filter ?V D) \<le> 1"
      using length_filter_le [of ?V D] by (simp add: D)
    then show ?thesis by (rule short_sorted_wrt)
  next
    case True
    have "sorted_wrt (\<lambda>x y. ?f x \<le> ?f y) ?S"
      using srt by (simp add: sorted_map)
    then have "sorted_wrt (\<lambda>x y. ?f y \<le> ?f x) D"
      unfolding D by (simp add: sorted_wrt_rev)
    then have "sorted_wrt (\<lambda>x y. ?f y \<le> ?f x) (filter ?V D)"
      by (rule sorted_wrt_filter)
    then show ?thesis
    proof (rule sorted_wrt_mono_rel [rotated])
      fix x y assume x: "x \<in> set (filter ?V D)" and y: "y \<in> set (filter ?V D)"
        and le: "?f y \<le> ?f x"
      have "\<not> rank (1, the_key lib x) < rank (1, the_key lib y)"
        using le fv x y by auto
      then show "keyval_lt (the_key lib x) (the_key lib y) = Inr False"
        using valid_keys_comparable [OF s True, of x y 1] x y setD by auto
    qed
  qed
qed

lemma reversed_part:
  assumes a: "sort_values lib False vals = Sorted A"
    and d: "sort_values lib True vals = Sorted D"
    and strict: "sorted_wrt (\<lambda>x y. keyval_lt (the_key lib x) (the_key lib y) = Inr True)
                   (filter (is_valid_value lib) A)"
  shows "filter (is_valid_value lib) D = rev (filter (is_valid_value lib) A)"
proof (cases "2 \<le> length vals")
  case False
  then have le: "length vals \<le> 1" by simp
  have "A = vals" "D = vals"
    using sort_values_Sorted(2) [OF a] sort_values_Sorted(2) [OF d]
      short_sort [OF le, of "rank \<circ> key_of lib False"]
      short_sort [OF le, of "rank \<circ> key_of lib True"] by simp_all
  moreover have "length (filter (is_valid_value lib) vals) \<le> 1"
    using length_filter_le [of "is_valid_value lib" vals] le by linarith
  then have "rev (filter (is_valid_value lib) vals) = filter (is_valid_value lib) vals"
    by (cases "filter (is_valid_value lib) vals") auto
  ultimately show ?thesis by simp
next
  case True
  let ?V = "is_valid_value lib"
  let ?g = "\<lambda>v. rank (0, the_key lib v)"
  let ?XA = "filter ?V A" and ?XD = "filter ?V D"
  have msA: "mset A = mset vals" and msD: "mset D = mset vals"
    using ascending_part(2) [OF a] descending_part(2) [OF d] by auto
  have setA: "set A = set vals" and setD: "set D = set vals"
    using msA msD by (auto dest: mset_eq_setD)
  have ms: "mset ?XD = mset ?XA"
    using msA msD by (metis mset_filter)
  have "sorted_wrt (\<lambda>x y. ?g x < ?g y) ?XA"
  proof (rule sorted_wrt_mono_rel [OF _ strict])
    fix x y assume x: "x \<in> set ?XA" and y: "y \<in> set ?XA"
      and lt: "keyval_lt (the_key lib x) (the_key lib y) = Inr True"
    show "?g x < ?g y"
      using valid_keys_comparable [OF a True, of x y 0] x y setA lt by auto
  qed
  then have "sorted_wrt (<) (map ?g ?XA)"
    by (simp add: sorted_wrt_map)
  then have sA: "sorted (map ?g ?XA)" and dA: "distinct (map ?g ?XA)"
    by (simp_all add: strict_sorted_iff)
  have "sorted_wrt (\<lambda>x y. ?g y \<le> ?g x) ?XD"
  proof (rule sorted_wrt_mono_rel [OF _ descending_part(3) [OF d]])
    fix x y assume x: "x \<in> set ?XD" and y: "y \<in> set ?XD"
      and nl: "keyval_lt (the_key lib x) (the_key lib y) = Inr False"
    show "?g y \<le> ?g x"
      using valid_keys_comparable [OF d True, of x y 0] x y setD nl by auto
  qed
  then have "sorted_wrt (\<lambda>x y. ?g x \<le> ?g y) (rev ?XD)"
    by (simp add: sorted_wrt_rev)
  then have sD: "sorted (map ?g (rev ?XD))"
    by (simp add: sorted_map)
  have "mset (map ?g (rev ?XD)) = mset (map ?g ?XA)"
    using ms by simp
  then have "sort (map ?g ?XA) = map ?g (rev ?XD)"
    using sD by (rule properties_for_sort)
  moreover have "sort (map ?g ?XA) = map ?g ?XA"
    using sA by (rule sort_key_id_if_sorted [of "\<lambda>x. x", simplified])
  ultimately have eq: "map ?g ?XA = map ?g (rev ?XD)" by simp
  have "set ?XD = set ?XA"
    using ms by (rule mset_eq_setD)
  then have "inj_on ?g (set ?XA \<union> set (rev ?XD))"
    using dA by (simp add: distinct_map)
  then have "?XA = rev ?XD"
    using eq by (simp add: inj_on_map_eq_map)
  then show ?thesis by simp
qed

text \<open>
  Claim C5, as the code has it.  The claim holds for the columns that the sort
  finishes on.  Whenever the ascending sort returns \<open>A\<close> and the descending sort returns
  \<open>D\<close>: both are permutations of the column; in both the valid values come first and
  the empty ones (placeholders and values whose conversion failed) follow, in the order
  they had in the column; the valid values ascend in \<open>A\<close> and descend in \<open>D\<close>; and when
  the valid keys are pairwise distinct, the valid values of \<open>D\<close> are those of \<open>A\<close>
  reversed.  The sort does not finish on every column: a column with a duration (or any
  number) and a string raises \<^verbatim>\<open>TypeError\<close>.
\<close>

theorem sort_values_empty_last:
  assumes "sort_values lib False vals = Sorted A"
    and "sort_values lib True vals = Sorted D"
  shows "mset A = mset vals \<and> mset D = mset vals \<and>
         A = filter (is_valid_value lib) A @ filter (\<lambda>v. \<not> is_valid_value lib v) vals \<and>
         D = filter (is_valid_value lib) D @ filter (\<lambda>v. \<not> is_valid_value lib v) vals \<and>
         sorted_wrt (\<lambda>x y. keyval_lt (the_key lib y) (the_key lib x) = Inr False)
           (filter (is_valid_value lib) A) \<and>
         sorted_wrt (\<lambda>x y. keyval_lt (the_key lib x) (the_key lib y) = Inr False)
           (filter (is_valid_value lib) D) \<and>
         (sorted_wrt (\<lambda>x y. keyval_lt (the_key lib x) (the_key lib y) = Inr True)
            (filter (is_valid_value lib) A) \<longrightarrow>
          filter (is_valid_value lib) D = rev (filter (is_valid_value lib) A))"
  using ascending_part [OF assms(1)] descending_part [OF assms(2)]
    reversed_part [OF assms]
  by blast

definition walltime_column :: "pyval list" where
  "walltime_column = [PStr ''01:30:00'', PStr ''--'', PStr ''00:10:00'', PNone]"

lemma example_keys:
  "convert_value_for_sorting plain_lib (PStr ''01:30:00'') None False = Inr (0, KInt 5400)"
  "convert_value_for_sorting plain_lib (PStr ''00:10:00'') None False = Inr (0, KInt 600)"
  "convert_value_for_sorting plain_lib (PStr ''--'') None False = Inr (1, KInt 0)"
  "convert_value_for_sorting plain_lib PNone None False = Inr (1, KInt 0)"
  "convert_value_for_sorting plain_lib (PStr ''01:30:00'') None True = Inr (1, KInt 5400)"
  "convert_value_for_sorting plain_lib (PStr ''00:10:00'') None True = Inr (1, KInt 600)"
  "convert_value_for_sorting plain_lib (PStr ''--'') None True = Inr (0, KInt 0)"
  "convert_value_for_sorting plain_lib PNone None True = Inr (0, KInt 0)"
  "convert_value_for_sorting plain_lib (PStr ''abc'') None False = Inr (0, KStr ''abc'')"
  "convert_value_for_sorting plain_lib (PStr ''abc'') None True = Inr (1, KStr ''abc'')"
  by code_simp+

lemma example_value_keys:
  "value_key plain_lib (PStr ''01:30:00'') = Inr (Some (KInt 5400))"
  "value_key plain_lib (PStr ''00:10:00'') = Inr (Some (KInt 600))"
  "value_key plain_lib (PStr ''--'') = Inr None"
  "value_key plain_lib PNone = Inr None"
  by code_simp+

lemmas sort_defs =
  sort_values_def py_sort_def raising_pair_def key_lt_def keyval_eq_def keyval_lt_def
  num_of_def float_eq_def float_lt_def unordered_key_def rank_def returns_def

theorem sort_values_empty_last_witness:
  "sort_values plain_lib False walltime_column =
     Sorted [PStr ''00:10:00'', PStr ''01:30:00'', PStr ''--'', PNone] \<and>
   sort_values plain_lib True walltime_column =
     Sorted [PStr ''01:30:00'', PStr ''00:10:00'', PStr ''--'', PNone] \<and>
   filter (\<lambda>v. \<not> is_valid_value plain_lib v) walltime_column = [PStr ''--'', PNone] \<and>
   filter (is_valid_value plain_lib) [PStr ''01:30:00'', PStr ''00:10:00'', PStr ''--'', PNone] =
     rev (filter (is_valid_value plain_lib)
            [PStr ''00:10:00'', PStr ''01:30:00'', PStr ''--'', PNone])"
proof -
  let ?A = "[PStr ''00:10:00'', PStr ''01:30:00'', PStr ''--'', PNone]"
  let ?D = "[PStr ''01:30:00'', PStr ''00:10:00'', PStr ''--'', PNone]"
  have a: "sort_values plain_lib False walltime_column = Sorted ?A"
    by (simp add: walltime_column_def sort_defs example_keys)
  have d: "sort_values plain_lib True walltime_column = Sorted ?D"
    by (simp add: walltime_column_def sort_defs example_keys)
  have e: "filter (\<lambda>v. \<not> is_valid_value plain_lib v) walltime_column = [PStr ''--'', PNone]"
    by (simp add: walltime_column_def is_valid_value_def example_value_keys)
  have s: "sorted_wrt (\<lambda>x y. keyval_lt (the_key plain_lib x) (the_key plain_lib y) = Inr True)
             (filter (is_valid_value plain_lib) ?A)"
    by (simp add: is_valid_value_def the_key_def example_value_keys sort_defs)
  have "filter (is_valid_value plain_lib) ?D = rev (filter (is_valid_value plain_lib) ?A)"
    using sort_values_empty_last [OF a d] s by blast
  then show ?thesis
    using a d e by blast
qed

theorem sort_values_mixed_counterexample:
  "sort_values plain_lib False [PStr ''01:30:00'', PStr ''abc''] = SortRaised TypeError \<and>
   sort_values plain_lib True [PStr ''01:30:00'', PStr ''abc''] = SortRaised TypeError"
  by (simp add: sort_defs example_keys)

section \<open>Routing queues\<close>

text \<open>
  A routing map is the dict that \<^verbatim>\<open>build_routing_map\<close> returns: routing queue name to
  the list of its destinations, in insertion order.  The lower-case map is built from
  its items one after the other, so of two keys that differ in case only the later item
  is the one \<^verbatim>\<open>lower_map.get\<close> reads.
\<close>

type_synonym routing_map = "(string \<times> string list) list"

definition lower_map :: "routing_map \<Rightarrow> routing_map" where
  \<comment> \<open>\<^verbatim>\<open>{k.lower(): [d.lower() for d in v] for k, v in routing_map.items()}\<close>\<close>
  "lower_map rm = map (\<lambda>(k, v). (lower k, map lower v)) (dict_items rm)"

definition dests :: "routing_map \<Rightarrow> string \<Rightarrow> string list" where
  \<comment> \<open>\<^verbatim>\<open>lower_map.get(q, [])\<close>\<close>
  "dests lm q = (case dict_get lm q of None \<Rightarrow> [] | Some ds \<Rightarrow> ds)"

text \<open>
  The \<^verbatim>\<open>while stack:\<close> loop of \<^verbatim>\<open>expand_routed_queues\<close>.  The stack is kept with its
  top at the head, so \<^verbatim>\<open>stack.pop()\<close> takes the head and the destinations appended in
  order end up reversed in front.  \<open>visited\<close> lists the queues in the order they were
  added to the set.
\<close>

function expand_loop :: "routing_map \<Rightarrow> string list \<Rightarrow> string list \<Rightarrow> string list" where
  "expand_loop lm visited [] = visited"
| "expand_loop lm visited (q # stack) =
     (if q \<in> set visited then expand_loop lm visited stack
      else expand_loop lm (visited @ [q])
             (rev (filter (\<lambda>nxt. nxt \<notin> set (visited @ [q])) (dests lm q)) @ stack))"
  by pat_completeness auto

definition all_dests :: "routing_map \<Rightarrow> string set" where
  "all_dests lm = (\<Union>ds \<in> snd ` set lm. set ds)"

lemma dests_subset: "set (dests lm q) \<subseteq> all_dests lm"
proof (cases "dict_get lm q")
  case None
  then show ?thesis by (simp add: dests_def)
next
  case (Some ds)
  then have "(q, ds) \<in> set lm"
    unfolding dict_get_def by (auto dest: map_of_SomeD)
  then have "set ds \<subseteq> all_dests lm"
    unfolding all_dests_def by force
  with Some show ?thesis by (simp add: dests_def)
qed

definition pending :: "routing_map \<times> string list \<times> string list \<Rightarrow> nat" where
  "pending = (\<lambda>(lm, visited, stack). card ((set stack \<union> all_dests lm) - set visited))"

lemma finite_all_dests: "finite (all_dests lm)"
  by (simp add: all_dests_def)

termination expand_loop
proof (relation "pending <*mlex*> measure (\<lambda>(lm, visited, stack). length stack)")
  show "wf (pending <*mlex*> measure (\<lambda>(lm, visited, stack). length stack))"
    by (simp add: wf_mlex)
next
  fix lm :: routing_map and visited stack :: "string list" and q :: string
  assume "q \<in> set visited"
  have "(set stack \<union> all_dests lm) - set visited \<subseteq> (set (q # stack) \<union> all_dests lm) - set visited"
    by auto
  then have "pending (lm, visited, stack) \<le> pending (lm, visited, q # stack)"
    unfolding pending_def by (simp add: card_mono finite_all_dests)
  then show "((lm, visited, stack), (lm, visited, q # stack))
      \<in> pending <*mlex*> measure (\<lambda>(lm, visited, stack). length stack)"
    by (simp add: mlex_leq)
next
  fix lm :: routing_map and visited stack :: "string list" and q :: string
  assume nv: "q \<notin> set visited"
  let ?new = "rev (filter (\<lambda>nxt. nxt \<notin> set (visited @ [q])) (dests lm q)) @ stack"
  have fin: "finite ((set (q # stack) \<union> all_dests lm) - set visited)"
    by (simp add: finite_all_dests)
  have "set ?new \<subseteq> set stack \<union> all_dests lm"
    using dests_subset [of lm q] by auto
  then have sub: "(set ?new \<union> all_dests lm) - set (visited @ [q])
      \<subseteq> (set (q # stack) \<union> all_dests lm) - set visited"
    by auto
  have "q \<in> (set (q # stack) \<union> all_dests lm) - set visited"
    using nv by simp
  moreover have "q \<notin> (set ?new \<union> all_dests lm) - set (visited @ [q])"
    by simp
  ultimately have "(set ?new \<union> all_dests lm) - set (visited @ [q])
      \<subset> (set (q # stack) \<union> all_dests lm) - set visited"
    using sub by blast
  then have "pending (lm, visited @ [q], ?new) < pending (lm, visited, q # stack)"
    unfolding pending_def using fin by (simp add: psubset_card_mono)
  then show "((lm, visited @ [q], ?new), (lm, visited, q # stack))
      \<in> pending <*mlex*> measure (\<lambda>(lm, visited, stack). length stack)"
    by (simp add: mlex_less)
qed

definition root_name :: "string option \<Rightarrow> string" where
  \<comment> \<open>\<^verbatim>\<open>(root_queue or '').split('@')[0].lower()\<close>; \<open>None\<close> is Python's \<^verbatim>\<open>None\<close>\<close>
  "root_name root_queue =
     lower (before_at (case root_queue of None \<Rightarrow> [] | Some s \<Rightarrow> s))"

definition expand_visited :: "string option \<Rightarrow> routing_map \<Rightarrow> string list" where
  \<comment> \<open>the queues of \<^verbatim>\<open>visited\<close> in the order the loop added them\<close>
  "expand_visited root_queue rm =
     (let rt = root_name root_queue
      in if rt = [] then []
         else expand_loop (lower_map rm) [] [rt])"

definition expand_routed_queues :: "string option \<Rightarrow> routing_map \<Rightarrow> string set" where
  "expand_routed_queues root_queue rm = set (expand_visited root_queue rm)"

definition edges :: "routing_map \<Rightarrow> (string \<times> string) set" where
  \<comment> \<open>\<open>(a, b)\<close>: queue \<open>a\<close> routes to queue \<open>b\<close>\<close>
  "edges lm = {(a, b). b \<in> set (dests lm a)}"

subsection \<open>The traversal\<close>

lemma expand_loop_distinct:
  "distinct visited \<Longrightarrow> distinct (expand_loop lm visited stack)"
  by (induction lm visited stack rule: expand_loop.induct) auto

lemma expand_loop_mono:
  "set visited \<union> set stack \<subseteq> set (expand_loop lm visited stack)"
  by (induction lm visited stack rule: expand_loop.induct) auto

lemma expand_loop_sound:
  "set (expand_loop lm visited stack) \<subseteq> set visited \<union> (edges lm)\<^sup>* `` set stack"
proof (induction lm visited stack rule: expand_loop.induct)
  case (1 lm visited)
  then show ?case by simp
next
  case (2 lm visited q stack)
  show ?case
  proof (cases "q \<in> set visited")
    case True
    with 2 show ?thesis by auto
  next
    case False
    let ?new = "rev (filter (\<lambda>nxt. nxt \<notin> set (visited @ [q])) (dests lm q)) @ stack"
    have "set ?new \<subseteq> (edges lm)\<^sup>* `` set (q # stack)"
      by (auto simp: edges_def)
    then have "(edges lm)\<^sup>* `` set ?new \<subseteq> (edges lm)\<^sup>* `` set (q # stack)"
      by (blast intro: rtrancl_trans)
    with 2(2) [OF False] False show ?thesis
      by auto
  qed
qed

text \<open>
  Once the stack is empty the visited set is closed under routing: along the loop every
  destination of a visited queue is visited already or still on the stack.
\<close>

lemma expand_loop_closed:
  "\<forall>v \<in> set visited. set (dests lm v) \<subseteq> set visited \<union> set stack \<Longrightarrow>
   \<forall>v \<in> set (expand_loop lm visited stack).
      set (dests lm v) \<subseteq> set (expand_loop lm visited stack)"
proof (induction lm visited stack rule: expand_loop.induct)
  case (1 lm visited)
  then show ?case by simp
next
  case (2 lm visited q stack)
  show ?case
  proof (cases "q \<in> set visited")
    case True
    have "\<forall>v \<in> set visited. set (dests lm v) \<subseteq> set visited \<union> set stack"
      using 2(3) True by auto
    with 2(1) [OF True] True show ?thesis by simp
  next
    case False
    let ?new = "rev (filter (\<lambda>nxt. nxt \<notin> set (visited @ [q])) (dests lm q)) @ stack"
    have "\<forall>v \<in> set (visited @ [q]).
        set (dests lm v) \<subseteq> set (visited @ [q]) \<union> set ?new"
      using 2(3) by auto
    with 2(2) [OF False] False show ?thesis by simp
  qed
qed

lemma closed_reach:
  assumes "(a, b) \<in> (edges lm)\<^sup>*" and "a \<in> R"
    and "\<forall>v \<in> R. set (dests lm v) \<subseteq> R"
  shows "b \<in> R"
  using assms by (induction rule: rtrancl_induct) (auto simp: edges_def)

lemma expand_loop_reach:
  "set (expand_loop lm [] [rt]) = (edges lm)\<^sup>* `` {rt}"
proof
  show "set (expand_loop lm [] [rt]) \<subseteq> (edges lm)\<^sup>* `` {rt}"
    using expand_loop_sound [of lm "[]" "[rt]"] by simp
next
  have cl: "\<forall>v \<in> set (expand_loop lm [] [rt]).
      set (dests lm v) \<subseteq> set (expand_loop lm [] [rt])"
    by (rule expand_loop_closed) simp
  have r: "rt \<in> set (expand_loop lm [] [rt])"
    using expand_loop_mono [of "[]" "[rt]" lm] by simp
  show "(edges lm)\<^sup>* `` {rt} \<subseteq> set (expand_loop lm [] [rt])"
    using closed_reach [OF _ r cl] by auto
qed

lemma expand_routed_queues_reach:
  "root_name rq \<noteq> [] \<Longrightarrow>
   expand_routed_queues rq rm = (edges (lower_map rm))\<^sup>* `` {root_name rq}"
  by (simp add: expand_routed_queues_def expand_visited_def Let_def expand_loop_reach
      del: expand_loop.simps)

lemma expand_routed_queues_empty_root:
  "root_name rq = [] \<Longrightarrow> expand_routed_queues rq rm = {}"
  by (simp add: expand_routed_queues_def expand_visited_def Let_def)

text \<open>
  Claim C8, as the code has it.  \<^verbatim>\<open>expand_routed_queues\<close> is a total function (the
  loop terminates on every routing map, cyclic or not: the termination proof of
  \<open>expand_loop\<close> above), no queue is added to \<open>visited\<close> twice, and for a root whose
  normalised name is not empty the result holds the root, is the set of queues reachable
  from it along routing edges, and is exactly \<open>{root}\<close> when the root is no key of the
  routing map.  For a root whose normalised name is empty (\<^verbatim>\<open>None\<close>, the empty string,
  a name that starts with \<^verbatim>\<open>@\<close>) the guard \<^verbatim>\<open>if not root: return set()\<close> returns the
  empty set, which does not hold the root.
\<close>

theorem expand_routed_queues_spec:
  "distinct (expand_visited rq rm) \<and>
   (root_name rq \<noteq> [] \<longrightarrow>
      root_name rq \<in> expand_routed_queues rq rm \<and>
      expand_routed_queues rq rm = (edges (lower_map rm))\<^sup>* `` {root_name rq} \<and>
      (dict_get (lower_map rm) (root_name rq) = None \<longrightarrow>
         expand_routed_queues rq rm = {root_name rq})) \<and>
   (root_name rq = [] \<longrightarrow> expand_routed_queues rq rm = {})"
proof (intro conjI impI)
  show "distinct (expand_visited rq rm)"
    by (simp add: expand_visited_def Let_def expand_loop_distinct)
next
  assume "root_name rq \<noteq> []"
  then show "root_name rq \<in> expand_routed_queues rq rm"
    by (simp add: expand_routed_queues_reach)
next
  assume "root_name rq \<noteq> []"
  then show "expand_routed_queues rq rm = (edges (lower_map rm))\<^sup>* `` {root_name rq}"
    by (rule expand_routed_queues_reach)
next
  assume "root_name rq \<noteq> []" and "dict_get (lower_map rm) (root_name rq) = None"
  then show "expand_routed_queues rq rm = {root_name rq}"
    by (simp add: expand_routed_queues_def expand_visited_def Let_def dests_def)
next
  assume "root_name rq = []"
  then show "expand_routed_queues rq rm = {}"
    by (rule expand_routed_queues_empty_root)
qed

theorem expand_routed_queues_spec_witness:
  "root_name (Some ''A'') = ''a'' \<and>
   distinct (expand_visited (Some ''A'') [(''A'', [''B'']), (''B'', [''A''])]) \<and>
   ''a'' \<in> expand_routed_queues (Some ''A'') [(''A'', [''B'']), (''B'', [''A''])] \<and>
   expand_routed_queues (Some ''A'') [(''A'', [''B'']), (''B'', [''A''])] = {''a'', ''b''} \<and>
   dict_get (lower_map [(''A'', [''B'']), (''B'', [''A''])]) (root_name (Some ''C@pbs'')) = None \<and>
   expand_routed_queues (Some ''C@pbs'') [(''A'', [''B'']), (''B'', [''A''])] = {''c''}"
proof -
  let ?cyc = "[(''A'', [''B'']), (''B'', [''A''])]"
  note A = expand_routed_queues_spec [of "Some ''A''" ?cyc]
  note C = expand_routed_queues_spec [of "Some ''C@pbs''" ?cyc]
  have r: "root_name (Some ''A'') = ''a''" by code_simp
  have c: "root_name (Some ''C@pbs'') = ''c''" by code_simp
  have n: "dict_get (lower_map ?cyc) (root_name (Some ''C@pbs'')) = None"
    by code_simp
  have e: "expand_routed_queues (Some ''A'') ?cyc = {''a'', ''b''}"
    by code_simp
  have d: "distinct (expand_visited (Some ''A'') ?cyc)"
    using A by blast
  have m: "''a'' \<in> expand_routed_queues (Some ''A'') ?cyc"
    using A r by auto
  have "root_name (Some ''C@pbs'') \<noteq> []"
    using c by simp
  then have "expand_routed_queues (Some ''C@pbs'') ?cyc = {root_name (Some ''C@pbs'')}"
    using C n by blast
  then have s: "expand_routed_queues (Some ''C@pbs'') ?cyc = {''c''}"
    using c by simp
  show ?thesis
    using r d m e n s by blast
qed

theorem expand_routed_queues_root_counterexample:
  "expand_routed_queues (Some ''@pbs'') [(''A'', [''B''])] = {} \<and>
   root_name (Some ''@pbs'') \<notin> expand_routed_queues (Some ''@pbs'') [(''A'', [''B''])] \<and>
   expand_routed_queues (Some ''@pbs'') [(''A'', [''B''])] \<noteq> {root_name (Some ''@pbs'')}"
  by code_simp

section \<open>The job pipeline\<close>

subsection \<open>The routing map of the queues\<close>

definition py_or :: "pyval \<Rightarrow> pyval \<Rightarrow> pyval" where
  \<comment> \<open>\<^verbatim>\<open>a or b\<close>\<close>
  "py_or a b = (if truthy a then a else b)"

definition str_strip :: "pyval \<Rightarrow> exn + string" where
  \<comment> \<open>\<^verbatim>\<open>v.strip()\<close>: only a string has the method\<close>
  "str_strip v = (case v of PStr s \<Rightarrow> Inr (strip s) | _ \<Rightarrow> Inl AttributeError)"

definition dest_names :: "string list \<Rightarrow> string list" where
  \<comment> \<open>\<^verbatim>\<open>[d.strip().split('@')[0] for d in ds if d.strip()]\<close>\<close>
  "dest_names ds = map (\<lambda>d. before_at (strip d)) (filter (\<lambda>d. strip d \<noteq> []) ds)"

definition route_destinations :: "'dt pylib \<Rightarrow> pyval \<Rightarrow> string list" where
  "route_destinations lib ds =
     (case ds of
        PStr t \<Rightarrow> dest_names (split_chr (CHR '','') t)
      | PList xs \<Rightarrow> dest_names (map (py_str lib) xs)
      | _ \<Rightarrow> [])"

fun routing_loop :: "'dt pylib \<Rightarrow> routing_map \<Rightarrow> (string \<times> pyval) list \<Rightarrow> exn + routing_map" where
  \<comment> \<open>the loop over \<^verbatim>\<open>queues.items()\<close>, from the \<^verbatim>\<open>routing_map\<close> built so far\<close>
  "routing_loop lib routing_map [] = Inr routing_map"
| "routing_loop lib routing_map ((qname, qinfo) # rest) =
     bnd (py_get qinfo ''queue_type'' PNone) (\<lambda>t1.
     bnd (if truthy t1 then Inr t1
          else bnd (py_get qinfo ''queue_type[]'' PNone) (\<lambda>t2. Inr (py_or t2 (PStr [])))) (\<lambda>t.
     bnd (str_strip t) (\<lambda>qtype.
       if lower qtype = ''route''
       then bnd (py_get qinfo ''route_destinations'' PNone) (\<lambda>ds.
              routing_loop lib
                (dict_set routing_map (before_at qname) (route_destinations lib ds)) rest)
       else routing_loop lib routing_map rest)))"

definition build_routing_map :: "'dt pylib \<Rightarrow> pyval \<Rightarrow> exn + routing_map" where
  "build_routing_map lib queues_data =
     bnd (py_get queues_data ''Queue'' (PDict [])) (\<lambda>q.
       case py_or q (PDict []) of
         PDict queues \<Rightarrow> routing_loop lib [] (dict_items queues)
       | _ \<Rightarrow> Inl AttributeError)"

definition expanded_queue_set :: "'dt pylib \<Rightarrow> string option \<Rightarrow> pyval \<Rightarrow> string set option" where
  \<comment> \<open>lines 695 to 704; \<open>queues_data\<close> is what \<^verbatim>\<open>qstat_queues()\<close> returned, and \<open>None\<close> is
      Python's \<^verbatim>\<open>None\<close>\<close>
  "expanded_queue_set lib queue_filter queues_data =
     (case queue_filter of
        None \<Rightarrow> None
      | Some qf \<Rightarrow>
          if qf = [] then None
          else (case build_routing_map lib queues_data of
                  Inl e \<Rightarrow> None
                | Inr routing_map \<Rightarrow>
                    if expand_visited (Some qf) routing_map = [] then None
                    else Some (expand_routed_queues (Some qf) routing_map)))"

subsection \<open>The columns of a row\<close>

definition format_time_display :: "pyval \<Rightarrow> pyval" where
  "format_time_display time_str =
     (if \<not> truthy time_str \<or> time_str = PStr ''0:0:0'' then PStr ''--'' else time_str)"

definition truncated :: "pyval \<Rightarrow> exn + pyval" where
  \<comment> \<open>\<^verbatim>\<open>s[:15] if len(s) > 15 else s\<close>; a dict of more than 15 entries cannot be sliced\<close>
  "truncated v =
     (case v of
        PStr s \<Rightarrow> Inr (PStr (take 15 s))
      | PList xs \<Rightarrow> Inr (PList (take 15 xs))
      | PDict d \<Rightarrow> if length (remdups (map fst d)) > 15 then Inl TypeError else Inr (PDict d)
      | _ \<Rightarrow> Inl TypeError)"

definition format_datetime_compact :: "'dt pylib \<Rightarrow> pyval \<Rightarrow> exn + pyval" where
  "format_datetime_compact lib datetime_str =
     (if \<not> truthy datetime_str \<or> datetime_str = PStr ''--'' then Inr (PStr ''--'')
      else case parse_pbs_time lib datetime_str of
             Inr d \<Rightarrow> Inr (PStr (strftime_compact lib d))
           | Inl e \<Rightarrow> truncated datetime_str)"

definition format_submitted_time :: "'dt pylib \<Rightarrow> pyval \<Rightarrow> exn + pyval" where
  "format_submitted_time lib qtime_str = format_datetime_compact lib qtime_str"

definition fmt02 :: "int \<Rightarrow> string" where
  \<comment> \<open>the format \<^verbatim>\<open>{n:02d}\<close>\<close>
  "fmt02 n = (if 0 \<le> n \<and> n < 10 then CHR ''0'' # str_int n else str_int n)"

definition elapsed_display :: "int \<Rightarrow> pyval" where
  "elapsed_display total_seconds =
     PStr (fmt02 (total_seconds div 3600) @ '':'' @ fmt02 ((total_seconds mod 3600) div 60)
           @ '':'' @ fmt02 (total_seconds mod 60))"

definition runtime_body :: "'dt pylib \<Rightarrow> pyval \<Rightarrow> pyval \<Rightarrow> exn + pyval" where
  \<comment> \<open>the body of the \<^verbatim>\<open>try\<close> statement of \<^verbatim>\<open>calculate_elapsed_runtime\<close>\<close>
  "runtime_body lib job state =
     bnd (py_get job ''stime'' (PStr [])) (\<lambda>stime.
       if \<not> truthy stime then Inr (PStr ''--'')
       else bnd (parse_pbs_time lib stime) (\<lambda>start_time.
         if state = PStr ''R''
         then Inr (elapsed_display (elapsed_seconds lib (now lib) start_time))
         else bnd (py_get job ''obittime'' (PStr [])) (\<lambda>obittime.
           if \<not> truthy obittime then Inr (PStr ''--'')
           else bnd (parse_pbs_time lib obittime) (\<lambda>end_time.
             Inr (elapsed_display (elapsed_seconds lib end_time start_time))))))"

definition calculate_elapsed_runtime :: "'dt pylib \<Rightarrow> pyval \<Rightarrow> exn + pyval" where
  "calculate_elapsed_runtime lib job =
     bnd (py_get job ''job_state'' (PStr [])) (\<lambda>state.
       if state = PStr ''Q'' then Inr (PStr ''--'')
       else case runtime_body lib job state of
              Inl e \<Rightarrow> if caught_by_convert e then Inr (PStr ''--'') else Inl e
            | Inr v \<Rightarrow> Inr v)"

subsection \<open>Extra columns\<close>

definition split_first :: "char \<Rightarrow> string \<Rightarrow> string \<times> string" where
  \<comment> \<open>\<^verbatim>\<open>s.split(c, 1)\<close> for a string that holds \<open>c\<close>\<close>
  "split_first c s = (takeWhile (\<lambda>x. x \<noteq> c) s, drop 1 (dropWhile (\<lambda>x. x \<noteq> c) s))"

definition column_names :: "string \<Rightarrow> string \<times> string" where
  \<comment> \<open>the field path and the display name of a column specification\<close>
  "column_names column_spec =
     (if CHR '':'' \<in> set column_spec then split_first (CHR '':'') column_spec
      else (column_spec, last (split_chr (CHR ''.'') column_spec)))"

fun navigate :: "pyval \<Rightarrow> string list \<Rightarrow> pyval" where
  \<comment> \<open>the loop over \<^verbatim>\<open>field_path.split('.')\<close>\<close>
  "navigate v [] = v"
| "navigate v (k # ks) =
     (case v of
        PDict d \<Rightarrow> (case dict_get d k of None \<Rightarrow> PStr ''--'' | Some w \<Rightarrow> navigate w ks)
      | _ \<Rightarrow> PStr ''--'')"

definition AWARD_CATEGORY_MAP :: "(string \<times> string) list" where
  "AWARD_CATEGORY_MAP =
     [(''INCITE'', ''INCITE''), (''ALCC'', ''ALCC''), (''Discretionary'', ''DD'')]"

definition get_award_category_display :: "pyval \<Rightarrow> exn + pyval" where
  \<comment> \<open>a list cannot be looked up in a dict: \<^verbatim>\<open>TypeError\<close>\<close>
  "get_award_category_display award_category =
     (if \<not> truthy award_category then Inr (PStr ''--'')
      else case award_category of
             PStr s \<Rightarrow> Inr (case dict_get AWARD_CATEGORY_MAP s of
                             None \<Rightarrow> PStr s | Some t \<Rightarrow> PStr t)
           | PList xs \<Rightarrow> Inl TypeError
           | PDict d \<Rightarrow> Inl TypeError
           | _ \<Rightarrow> Inr award_category)"

definition extract_extra_column_value ::
  "'dt pylib \<Rightarrow> pyval \<Rightarrow> string \<Rightarrow> exn + (string \<times> pyval)" where
  "extract_extra_column_value lib job column_spec =
     (let (field_path, display_name) = column_names column_spec;
          found = navigate job (split_chr (CHR ''.'') field_path);
          v1 = (case found of PDict d \<Rightarrow> PStr ''--'' | _ \<Rightarrow> found)
      in bnd (if field_path = ''Resource_List.award_category''
              then get_award_category_display v1 else Inr v1) (\<lambda>v2.
         bnd (if truthy v2 \<and> v2 \<noteq> PStr ''--'' \<and> detect_value_type lib v2 = VDatetime
              then format_datetime_compact lib v2 else Inr v2) (\<lambda>v3.
           Inr (display_name, v3))))"

fun extra_loop ::
  "'dt pylib \<Rightarrow> pyval \<Rightarrow> string option \<Rightarrow> (string \<times> pyval) list \<Rightarrow> string list
     \<Rightarrow> exn + (string \<times> pyval) list" where
  \<comment> \<open>the loop of \<^verbatim>\<open>get_extra_columns_data\<close>; \<open>column_name\<close> is the variable of that
      name, unbound until a first extraction has succeeded\<close>
  "extra_loop lib job column_name extra_data [] = Inr extra_data"
| "extra_loop lib job column_name extra_data (column_spec # rest) =
     (case extract_extra_column_value lib job column_spec of
        Inr (name, v) \<Rightarrow> extra_loop lib job (Some name) (extra_data @ [(name, v)]) rest
      | Inl e \<Rightarrow>
          if is_Exception e
          then (case column_name of
                  None \<Rightarrow> Inl UnboundLocalError
                | Some name \<Rightarrow>
                    extra_loop lib job column_name (extra_data @ [(name, PStr ''--'')]) rest)
          else Inl e)"

definition get_extra_columns_data ::
  "'dt pylib \<Rightarrow> pyval \<Rightarrow> string list \<Rightarrow> exn + (string \<times> pyval) list" where
  "get_extra_columns_data lib job extra_columns = extra_loop lib job None [] extra_columns"

subsection \<open>One job\<close>

record job_filters =
  state_filter :: "string option"
  queue_filter :: "string option"
  user_filter :: "string option"
  project_filter :: "string option"
  jobid_filter :: "string option"

type_synonym row = "(string \<times> pyval) list"

definition given :: "string option \<Rightarrow> bool" where
  \<comment> \<open>\<^verbatim>\<open>if flt:\<close> for an option that is \<^verbatim>\<open>None\<close> or a string\<close>
  "given flt = (case flt of None \<Rightarrow> False | Some t \<Rightarrow> t \<noteq> [])"

definition jobid_set :: "string option \<Rightarrow> string list" where
  \<comment> \<open>lines 707 to 709, the set as the list of its members; empty when there is none\<close>
  "jobid_set flt =
     (case flt of
        None \<Rightarrow> []
      | Some t \<Rightarrow> map strip (filter (\<lambda>jid. strip jid \<noteq> []) (split_chr (CHR '','') t)))"

definition py_lower :: "pyval \<Rightarrow> exn + string" where
  \<comment> \<open>\<^verbatim>\<open>v.lower()\<close>: only a string has the method\<close>
  "py_lower v = (case v of PStr t \<Rightarrow> Inr (lower t) | _ \<Rightarrow> Inl AttributeError)"

definition state_passes :: "string option \<Rightarrow> pyval \<Rightarrow> exn + bool" where
  \<comment> \<open>lines 729 to 733; a list or a dict cannot be looked up in a set\<close>
  "state_passes flt state =
     (case flt of
        None \<Rightarrow> Inr True
      | Some sf \<Rightarrow>
          if sf = [] \<or> lower sf = ''all'' then Inr True
          else (case state of
                  PStr t \<Rightarrow> Inr (case t of [c] \<Rightarrow> c \<in> upper_set sf | _ \<Rightarrow> False)
                | PList xs \<Rightarrow> Inl TypeError
                | PDict d \<Rightarrow> Inl TypeError
                | _ \<Rightarrow> Inr False))"

lemma state_passes_sharp_s:
  \<comment> \<open>the upper case of code point 223 is \<^verbatim>\<open>SS\<close>: the filter admits the state \<^verbatim>\<open>S\<close>\<close>
  "state_passes (Some [char_of (223 :: nat)]) (PStr ''S'') = Inr True"
  "state_passes (Some [char_of (223 :: nat)]) (PStr [char_of (223 :: nat)]) = Inr False"
  "state_passes (Some ''rq'') (PStr ''Q'') = Inr True"
  by code_simp+

definition queue_passes :: "string option \<Rightarrow> string set option \<Rightarrow> pyval \<Rightarrow> exn + bool" where
  \<comment> \<open>lines 734 to 740\<close>
  "queue_passes flt expanded queue =
     (case flt of
        None \<Rightarrow> Inr True
      | Some qf \<Rightarrow>
          if qf = [] then Inr True
          else (case expanded of
                  Some qs \<Rightarrow> bnd (py_lower queue) (\<lambda>q. Inr (q \<in> qs))
                | None \<Rightarrow> bnd (py_lower queue) (\<lambda>q. Inr (contains (lower qf) q))))"

definition substring_passes :: "string option \<Rightarrow> pyval \<Rightarrow> exn + bool" where
  \<comment> \<open>lines 741 to 744, for the user and for the project\<close>
  "substring_passes flt v =
     (case flt of
        None \<Rightarrow> Inr True
      | Some t \<Rightarrow>
          if t = [] then Inr True
          else bnd (py_lower v) (\<lambda>w. Inr (contains (lower t) w)))"

definition process_job ::
  "'dt pylib \<Rightarrow> pyval \<Rightarrow> job_filters \<Rightarrow> string set option \<Rightarrow> string list option
     \<Rightarrow> string \<Rightarrow> pyval \<Rightarrow> exn + row option" where
  \<comment> \<open>the body of the \<^verbatim>\<open>try\<close> statement of the loop, lines 715 to 764: \<open>None\<close> is a
      \<^verbatim>\<open>continue\<close>, a row is what is appended to \<^verbatim>\<open>job_list\<close>; \<open>jobid_short\<close> is
      \<^verbatim>\<open>jobid.split('.')[0]\<close>, the text before the first dot\<close>
  "process_job lib server_data flt expanded extra_columns jobid job =
     bnd (execute_job_sort_formula lib server_data job) (\<lambda>score.
     let jobid_short = takeWhile (\<lambda>c. c \<noteq> CHR ''.'') jobid in
     bnd (py_get job ''Variable_List'' (PDict [])) (\<lambda>vl.
     bnd (py_get vl ''PBS_O_LOGNAME'' (PStr ''Unknown'')) (\<lambda>user.
     bnd (py_get job ''job_state'' (PStr ''Unknown'')) (\<lambda>state.
     bnd (py_get job ''queue'' (PStr ''Unknown'')) (\<lambda>queue.
     bnd (py_get job ''Resource_List'' (PDict [])) (\<lambda>rl.
     bnd (py_get rl ''nodect'' (PInt 0)) (\<lambda>nodes.
     bnd (py_get job ''project'' (PStr ''Unknown'')) (\<lambda>project.
     bnd (py_get rl ''walltime'' (PStr ''--'')) (\<lambda>wt.
     let walltime = format_time_display wt in
     bnd (calculate_elapsed_runtime lib job) (\<lambda>runtime.
     bnd (py_get job ''qtime'' (PStr [])) (\<lambda>qtime.
     bnd (format_submitted_time lib qtime) (\<lambda>submitted.
       if jobid_set (jobid_filter flt) \<noteq> [] \<and> jobid_short \<notin> set (jobid_set (jobid_filter flt))
       then Inr None
       else
     bnd (state_passes (state_filter flt) state) (\<lambda>ok_state.
       if \<not> ok_state then Inr None else
     bnd (queue_passes (queue_filter flt) expanded queue) (\<lambda>ok_queue.
       if \<not> ok_queue then Inr None else
     bnd (substring_passes (user_filter flt) user) (\<lambda>ok_user.
       if \<not> ok_user then Inr None else
     bnd (substring_passes (project_filter flt) project) (\<lambda>ok_project.
       if \<not> ok_project then Inr None else
     let job_dict =
           [(''jobid'', PStr jobid_short), (''user'', user), (''state'', state),
            (''queue'', queue), (''nodes'', nodes), (''score'', score),
            (''project'', project), (''walltime'', walltime), (''runtime'', runtime),
            (''submitted'', submitted)]
     in case extra_columns of
          None \<Rightarrow> Inr (Some job_dict)
        | Some cols \<Rightarrow>
            if cols = [] then Inr (Some job_dict)
            else bnd (get_extra_columns_data lib job cols)
                   (\<lambda>extra_data. Inr (Some (job_dict @ extra_data)))))))))))))))))))"

subsection \<open>The rows of a snapshot\<close>

text \<open>
  The loop over \<^verbatim>\<open>jobs.items()\<close>.  What \<^verbatim>\<open>except Exception\<close> catches is logged with
  the job's id and the loop goes on; the result is the list of rows and the list of the
  job ids that were logged.  An exception outside \<^verbatim>\<open>Exception\<close> ends the loop.
\<close>

fun build_rows :: "(string \<Rightarrow> pyval \<Rightarrow> exn + row option) \<Rightarrow> (string \<times> pyval) list
    \<Rightarrow> exn + (row list \<times> string list)" where
  "build_rows f [] = Inr ([], [])"
| "build_rows f ((jobid, job) # rest) =
     (case f jobid job of
        Inl e \<Rightarrow>
          if is_Exception e
          then bnd (build_rows f rest) (\<lambda>(rows, warned). Inr (rows, jobid # warned))
          else Inl e
      | Inr None \<Rightarrow> build_rows f rest
      | Inr (Some r) \<Rightarrow> bnd (build_rows f rest) (\<lambda>(rows, warned). Inr (r # rows, warned)))"

subsection \<open>Sorting and limiting the rows\<close>

definition raw_key :: "pyval \<Rightarrow> sortkey" where
  \<comment> \<open>a field of the row used as the key as it is\<close>
  "raw_key v =
     (0, case v of
           PInt i \<Rightarrow> KInt i
         | PBool b \<Rightarrow> KInt (if b then 1 else 0)
         | PFloat f \<Rightarrow> KFloat f
         | PStr t \<Rightarrow> KStr t
         | PList xs \<Rightarrow> KList
         | _ \<Rightarrow> KOther)"

definition field :: "row \<Rightarrow> string \<Rightarrow> exn + pyval" where
  \<comment> \<open>\<^verbatim>\<open>x[name]\<close>\<close>
  "field x name = (case dict_get x name of None \<Rightarrow> Inl KeyError | Some v \<Rightarrow> Inr v)"

definition extra_column_names :: "string list option \<Rightarrow> string list" where
  "extra_column_names extra_columns =
     (case extra_columns of None \<Rightarrow> [] | Some cols \<Rightarrow> map (snd \<circ> column_names) cols)"

definition py_int_of :: "'dt pylib \<Rightarrow> pyval \<Rightarrow> exn + int" where
  \<comment> \<open>\<^verbatim>\<open>int(v)\<close>: a float is cut towards zero\<close>
  "py_int_of lib v =
     (case v of
        PStr t \<Rightarrow> (case py_int lib t of None \<Rightarrow> Inl ValueError | Some i \<Rightarrow> Inr i)
      | PInt i \<Rightarrow> Inr i
      | PBool b \<Rightarrow> Inr (if b then 1 else 0)
      | PFloat (Fin r) \<Rightarrow> Inr (if 0 \<le> r then \<lfloor>r\<rfloor> else \<lceil>r\<rceil>)
      | PFloat NaN \<Rightarrow> Inl ValueError
      | PFloat _ \<Rightarrow> Inl OverflowError
      | _ \<Rightarrow> Inl TypeError)"

definition sort_rows ::
  "'dt pylib \<Rightarrow> string option \<Rightarrow> bool \<Rightarrow> string list option \<Rightarrow> row list \<Rightarrow> row sort_result" where
  \<comment> \<open>lines 769 to 809\<close>
  "sort_rows lib sort_by reverse extra_columns job_list =
     (case sort_by of
        None \<Rightarrow> Sorted job_list
      | Some sb \<Rightarrow>
          if sb = [] then Sorted job_list
          else if sb \<in> set (extra_column_names extra_columns) then
            py_sort (\<lambda>x. convert_value_for_sorting lib
                            (case dict_get x sb of None \<Rightarrow> PStr ''--'' | Some v \<Rightarrow> v)
                            None reverse) reverse job_list
          else if sb = ''score'' \<or> sb = ''state'' \<or> sb = ''nodes'' then
            py_sort (\<lambda>x. bnd (field x sb) (\<lambda>v. Inr (raw_key v))) reverse job_list
          else if sb = ''user'' \<or> sb = ''queue'' \<or> sb = ''project'' then
            py_sort (\<lambda>x. bnd (field x sb) (\<lambda>v. bnd (py_lower v) (\<lambda>t. Inr (0, KStr t))))
              reverse job_list
          else if sb = ''jobid'' then
            py_sort (\<lambda>x. bnd (field x sb) (\<lambda>v.
                       bnd (py_int_of lib v) (\<lambda>i. Inr (0, KInt i))))
              reverse job_list
          else if sb = ''walltime'' \<or> sb = ''runtime'' \<or> sb = ''submitted'' then
            py_sort (\<lambda>x. bnd (field x sb)
                       (\<lambda>v. convert_value_for_sorting lib v None reverse)) reverse job_list
          else Sorted job_list)"

definition apply_limit :: "int option \<Rightarrow> 'a list \<Rightarrow> 'a list" where
  \<comment> \<open>\<^verbatim>\<open>if limit and limit > 0: job_list = job_list[:limit]\<close>\<close>
  "apply_limit limit job_list =
     (case limit of
        None \<Rightarrow> job_list
      | Some n \<Rightarrow> if n \<noteq> 0 \<and> n > 0 then take (nat n) job_list else job_list)"

subsection \<open>The whole function\<close>

text \<open>
  \<^verbatim>\<open>print_jobs\<close> in two parts.  \<open>print_jobs_rows\<close> is the function from line 689 to
  line 813: the \<^verbatim>\<open>job_list\<close> that reaches the printing part, filtered, sorted and cut to
  the limit, and the ids of the jobs that were logged as failed.  The server data and the
  queue data are arguments (the function obtains them from \<^verbatim>\<open>qstat\<close>).
\<close>

datatype print_result = Emitted "row list" "string list" | Raised exn | NotModelled

definition print_jobs_rows ::
  "'dt pylib \<Rightarrow> pyval \<Rightarrow> pyval \<Rightarrow> pyval \<Rightarrow> string option \<Rightarrow> bool \<Rightarrow> job_filters
     \<Rightarrow> int option \<Rightarrow> string list option \<Rightarrow> print_result" where
  "print_jobs_rows lib job_data server_data queues_data sort_by reverse flt limit extra_columns =
     (case py_get job_data ''Jobs'' (PDict []) of
        Inl e \<Rightarrow> Raised e
      | Inr jobs \<Rightarrow>
          if \<not> truthy jobs then Emitted [] []
          else (case jobs of
                  PDict js \<Rightarrow>
                    (case build_rows
                            (process_job lib server_data flt
                               (expanded_queue_set lib (queue_filter flt) queues_data)
                               extra_columns)
                            (dict_items js) of
                       Inl e \<Rightarrow> Raised e
                     | Inr (job_list, warned) \<Rightarrow>
                         (case sort_rows lib sort_by reverse extra_columns job_list of
                            Sorted sorted_list \<Rightarrow> Emitted (apply_limit limit sorted_list) warned
                          | SortRaised e \<Rightarrow> Raised e
                          | SortUnmodelled \<Rightarrow> NotModelled))
                | _ \<Rightarrow> Raised AttributeError))"

text \<open>
  The printing part, lines 815 to 870.  The rows are printed one after the other with
  \<^verbatim>\<open>format_string.format(**job)\<close>, whose replacement fields are the ten base columns
  and one field per extra column.  What is kept of a field is whether it can be
  formatted: the presentation type \<^verbatim>\<open>s\<close> takes a string only, \<^verbatim>\<open>d\<close> an integer or a
  boolean, \<^verbatim>\<open>f\<close> a number, and a field whose key the row does not hold raises
  \<^verbatim>\<open>KeyError\<close>.  The text that is printed is not modelled.
\<close>

datatype fmt = Formatted | FormatRaised exn | FormatUnmodelled

definition format_s :: "pyval \<Rightarrow> fmt" where
  \<comment> \<open>a field such as \<^verbatim>\<open>{user:>14s}\<close>\<close>
  "format_s v =
     (case v of
        PStr t \<Rightarrow> Formatted
      | PNone \<Rightarrow> FormatRaised TypeError
      | PList xs \<Rightarrow> FormatRaised TypeError
      | PDict d \<Rightarrow> FormatRaised TypeError
      | _ \<Rightarrow> FormatRaised ValueError)"

definition format_d :: "pyval \<Rightarrow> fmt" where
  \<comment> \<open>the field \<^verbatim>\<open>{nodes:>10d}\<close>; whether an integer of more than 4300 digits is
      printed depends on the version of the interpreter\<close>
  "format_d v =
     (case v of
        PInt i \<Rightarrow> if length (nat_digits (nat \<bar>i\<bar>)) \<le> 4300 then Formatted else FormatUnmodelled
      | PBool b \<Rightarrow> Formatted
      | PFloat f \<Rightarrow> FormatRaised ValueError
      | PStr t \<Rightarrow> FormatRaised ValueError
      | _ \<Rightarrow> FormatRaised TypeError)"

definition format_f :: "'dt pylib \<Rightarrow> pyval \<Rightarrow> fmt" where
  \<comment> \<open>the field \<^verbatim>\<open>{score:10.2f}\<close>: an integer is made a float first\<close>
  "format_f lib v =
     (case v of
        PInt i \<Rightarrow> (case py_float lib (PInt i) of Inl e \<Rightarrow> FormatRaised e | Inr f \<Rightarrow> Formatted)
      | PBool b \<Rightarrow> Formatted
      | PFloat f \<Rightarrow> Formatted
      | PStr t \<Rightarrow> FormatRaised ValueError
      | _ \<Rightarrow> FormatRaised TypeError)"

definition simple_name :: "string \<Rightarrow> bool" where
  \<comment> \<open>a display name that \<^verbatim>\<open>{name:>15s}\<close> looks up as it is among the keys of the row:
      not empty, not a number, and free of the characters to which the grammar of format
      strings gives a meaning\<close>
  "simple_name name =
     (name \<noteq> [] \<and> \<not> list_all is_digit name \<and>
      list_all (\<lambda>c. c \<notin> set ''{}:!.['') name)"

definition format_fields :: "'dt pylib \<Rightarrow> string list \<Rightarrow> (string \<times> (pyval \<Rightarrow> fmt)) list" where
  \<comment> \<open>the replacement fields of \<^verbatim>\<open>format_string\<close>, lines 836 to 847, from left to right\<close>
  "format_fields lib names =
     [(''jobid'', format_s), (''user'', format_s), (''state'', format_s),
      (''queue'', format_s), (''nodes'', format_d), (''score'', format_f lib),
      (''walltime'', format_s), (''runtime'', format_s), (''submitted'', format_s),
      (''project'', format_s)] @ map (\<lambda>name. (name, format_s)) names"

fun format_row :: "(string \<times> (pyval \<Rightarrow> fmt)) list \<Rightarrow> row \<Rightarrow> fmt" where
  \<comment> \<open>\<^verbatim>\<open>format_string.format(**job)\<close>: the first field that cannot be formatted ends it\<close>
  "format_row [] job = Formatted"
| "format_row ((name, f) # rest) job =
     (case dict_get job name of
        None \<Rightarrow> FormatRaised KeyError
      | Some v \<Rightarrow> (case f v of Formatted \<Rightarrow> format_row rest job | r \<Rightarrow> r))"

fun print_loop :: "(row \<Rightarrow> fmt) \<Rightarrow> row list \<Rightarrow> row list \<times> fmt" where
  \<comment> \<open>the loop of lines 869 and 870: the rows that were printed, and how the loop ended\<close>
  "print_loop f [] = ([], Formatted)"
| "print_loop f (job # rest) =
     (case f job of
        Formatted \<Rightarrow> (case print_loop f rest of (printed, r) \<Rightarrow> (job # printed, r))
      | r \<Rightarrow> ([], r))"

text \<open>
  A run of \<^verbatim>\<open>print_jobs\<close> returns, having printed rows and logged job ids, or it raises
  an exception after it has printed rows.
\<close>

datatype print_run = Returned "row list" "string list" | Aborted "row list" exn | Unmodelled

definition print_rows ::
  "'dt pylib \<Rightarrow> string list option \<Rightarrow> row list \<Rightarrow> string list \<Rightarrow> print_run" where
  \<comment> \<open>lines 815 to 870\<close>
  "print_rows lib extra_columns job_list warned =
     (if job_list = [] then Returned [] warned
      else if \<not> list_all simple_name (extra_column_names extra_columns) then Unmodelled
      else (case print_loop
                   (format_row (format_fields lib (extra_column_names extra_columns)))
                   job_list of
              (printed, Formatted) \<Rightarrow> Returned printed warned
            | (printed, FormatRaised e) \<Rightarrow> Aborted printed e
            | (printed, FormatUnmodelled) \<Rightarrow> Unmodelled))"

definition print_jobs ::
  "'dt pylib \<Rightarrow> pyval \<Rightarrow> pyval \<Rightarrow> pyval \<Rightarrow> string option \<Rightarrow> bool \<Rightarrow> job_filters
     \<Rightarrow> int option \<Rightarrow> string list option \<Rightarrow> print_run" where
  "print_jobs lib job_data server_data queues_data sort_by reverse flt limit extra_columns =
     (case print_jobs_rows lib job_data server_data queues_data sort_by reverse flt limit
             extra_columns of
        Emitted job_list warned \<Rightarrow> print_rows lib extra_columns job_list warned
      | Raised e \<Rightarrow> Aborted [] e
      | NotModelled \<Rightarrow> Unmodelled)"

subsection \<open>A snapshot for the concrete evaluations\<close>

text \<open>
  Two queues, of which \<^verbatim>\<open>debug\<close> routes to \<^verbatim>\<open>debug-scaling\<close>, and three jobs, of which
  the second is not a dict.
\<close>

definition debug_queues :: pyval where
  "debug_queues =
     PDict [(''Queue'', PDict
       [(''debug'', PDict [(''queue_type'', PStr ''Route''),
                           (''route_destinations'', PStr ''debug-scaling'')]),
        (''debug-scaling'', PDict [(''queue_type'', PStr ''Execution'')])])]"

definition queued_job :: "string \<Rightarrow> pyval" where
  "queued_job q = PDict [(''job_state'', PStr ''Q''), (''queue'', PStr q)]"

definition snapshot_jobs :: "(string \<times> pyval) list" where
  "snapshot_jobs =
     [(''111.x'', queued_job ''debug''),
      (''112.x'', PStr ''garbage''),
      (''113.x'', queued_job ''debug-scaling'')]"

definition snapshot :: pyval where
  "snapshot = PDict [(''Jobs'', PDict snapshot_jobs)]"

definition two_jobs :: pyval where
  "two_jobs =
     PDict [(''Jobs'', PDict [(''111.x'', queued_job ''debug''),
                              (''113.x'', queued_job ''debug-scaling'')])]"




definition no_filters :: job_filters where
  "no_filters = \<lparr>state_filter = None, queue_filter = None, user_filter = None,
                  project_filter = None, jobid_filter = None\<rparr>"

definition queued_row :: "string \<Rightarrow> string \<Rightarrow> row" where
  "queued_row jid q =
     [(''jobid'', PStr jid), (''user'', PStr ''Unknown''), (''state'', PStr ''Q''),
      (''queue'', PStr q), (''nodes'', PInt 0), (''score'', PFloat (Fin 0)),
      (''project'', PStr ''Unknown''), (''walltime'', PStr ''--''), (''runtime'', PStr ''--''),
      (''submitted'', PStr ''--'')]"

subsection \<open>The queue filter\<close>

lemma process_job_queue:
  assumes "process_job lib sd flt ex ec jid job = Inr ro"
    and "state_filter flt = None" "user_filter flt = None"
    and "project_filter flt = None" "jobid_filter flt = None"
  shows "\<exists>queue. py_get job ''queue'' (PStr ''Unknown'') = Inr queue \<and>
           (ro \<noteq> None) = (queue_passes (queue_filter flt) ex queue = Inr True)"
  using assms
  unfolding process_job_def bnd_def Let_def state_passes_def substring_passes_def jobid_set_def
  by (auto split: sum.splits if_splits option.splits)

lemma expanded_queue_set_reach:
  assumes "qf \<noteq> []" and "build_routing_map lib queues_data = Inr rm"
    and "root_name (Some qf) \<noteq> []"
  shows "expanded_queue_set lib (Some qf) queues_data =
           Some ((edges (lower_map rm))\<^sup>* `` {root_name (Some qf)})"
proof -
  have "root_name (Some qf) \<in> expand_routed_queues (Some qf) rm"
    using assms(3) by (simp add: expand_routed_queues_reach)
  then have "expand_visited (Some qf) rm \<noteq> []"
    unfolding expand_routed_queues_def by auto
  then show ?thesis
    using assms by (simp add: expanded_queue_set_def expand_routed_queues_reach)
qed

lemma expanded_queue_set_empty_root:
  assumes "qf \<noteq> []" and "build_routing_map lib queues_data = Inr rm"
    and "root_name (Some qf) = []"
  shows "expanded_queue_set lib (Some qf) queues_data = None"
  using assms by (simp add: expanded_queue_set_def expand_visited_def Let_def)

lemma queue_passes_expanded:
  "qf \<noteq> [] \<Longrightarrow>
   (queue_passes (Some qf) (Some qs) queue = Inr True) = (\<exists>q. queue = PStr q \<and> lower q \<in> qs)"
  by (cases queue) (auto simp: queue_passes_def py_lower_def bnd_def)

lemma queue_passes_substring:
  "qf \<noteq> [] \<Longrightarrow>
   (queue_passes (Some qf) None queue = Inr True) =
     (\<exists>q. queue = PStr q \<and> contains (lower qf) (lower q))"
  by (cases queue) (auto simp: queue_passes_def py_lower_def bnd_def)

text \<open>
  Claim C4, as the code has it.  When a queue filter is given and the routing map can be
  built, there are two cases.  If the name of the filter, cut at \<^verbatim>\<open>@\<close> and in lower case,
  is not empty, the set the filter is expanded to is the set of queues that can be
  reached from that name along routing edges, the name included: the closure runs
  downstream only; with no other filter, a job whose processing does not fail is kept
  exactly when its queue, in lower case, is in that set.  If that name is empty (a filter
  that starts with \<^verbatim>\<open>@\<close>), no set is built and a job is kept exactly when the filter, in
  lower case, is a part of its queue in lower case.  A job that sits in a routing queue
  is therefore not found under the name of one of the queue's destinations.
\<close>

theorem queue_filter_downstream:
  assumes "qf \<noteq> []"
    and "build_routing_map lib queues_data = Inr rm"
    and "queue_filter flt = Some qf"
    and "state_filter flt = None" "user_filter flt = None"
    and "project_filter flt = None" "jobid_filter flt = None"
    and "process_job lib sd flt (expanded_queue_set lib (queue_filter flt) queues_data)
           ec jid job = Inr ro"
  shows "expanded_queue_set lib (queue_filter flt) queues_data =
           (if root_name (Some qf) = [] then None
            else Some ((edges (lower_map rm))\<^sup>* `` {root_name (Some qf)})) \<and>
         (\<exists>queue. py_get job ''queue'' (PStr ''Unknown'') = Inr queue \<and>
            (ro \<noteq> None) =
              (\<exists>q. queue = PStr q \<and>
                 (if root_name (Some qf) = [] then contains (lower qf) (lower q)
                  else (root_name (Some qf), lower q) \<in> (edges (lower_map rm))\<^sup>*)))"
proof -
  let ?E = "(edges (lower_map rm))\<^sup>* `` {root_name (Some qf)}"
  obtain queue where q: "py_get job ''queue'' (PStr ''Unknown'') = Inr queue"
    and k: "(ro \<noteq> None) =
        (queue_passes (queue_filter flt)
           (expanded_queue_set lib (queue_filter flt) queues_data) queue = Inr True)"
    using process_job_queue [OF assms(8,4,5,6,7)] by (elim exE conjE)
  show ?thesis
  proof (cases "root_name (Some qf) = []")
    case True
    have ex': "expanded_queue_set lib (Some qf) queues_data = None"
      by (rule expanded_queue_set_empty_root [OF assms(1,2) True])
    have k': "(ro \<noteq> None) = (queue_passes (Some qf) None queue = Inr True)"
      using k unfolding assms(3) ex' .
    have k'': "(ro \<noteq> None) = (\<exists>q. queue = PStr q \<and> contains (lower qf) (lower q))"
      using k' unfolding queue_passes_substring [OF assms(1)] .
    show ?thesis
      unfolding assms(3) using True ex' q k'' by simp
  next
    case False
    have ex': "expanded_queue_set lib (Some qf) queues_data = Some ?E"
      by (rule expanded_queue_set_reach [OF assms(1,2) False])
    have k': "(ro \<noteq> None) = (queue_passes (Some qf) (Some ?E) queue = Inr True)"
      using k unfolding assms(3) ex' .
    have m: "(t \<in> ?E) = ((root_name (Some qf), t) \<in> (edges (lower_map rm))\<^sup>*)" for t
      by (rule Image_singleton_iff)
    have k'': "(ro \<noteq> None) = (\<exists>q. queue = PStr q \<and> lower q \<in> ?E)"
      using k' unfolding queue_passes_expanded [OF assms(1)] .
    have k3: "(ro \<noteq> None) =
        (\<exists>q. queue = PStr q \<and> (root_name (Some qf), lower q) \<in> (edges (lower_map rm))\<^sup>*)"
      using k'' unfolding m .
    show ?thesis
      unfolding assms(3) using False ex' q k3 by simp
  qed
qed

lemma debug_routing_map:
  "build_routing_map plain_lib debug_queues = Inr [(''debug'', [''debug-scaling''])]"
  by code_simp

text \<open>
  Two routing queues whose names differ in case only, the first of them listed twice with
  a server suffix: the second listing overwrites the destinations of the first in place,
  and of the two items of the routing map the later one, \<^verbatim>\<open>A\<close>, is the one the
  lower-case map keeps.
\<close>

definition route_to :: "string \<Rightarrow> pyval" where
  "route_to d = PDict [(''queue_type'', PStr ''Route''), (''route_destinations'', PStr d)]"

definition colliding_queues :: pyval where
  "colliding_queues =
     PDict [(''Queue'', PDict [(''a@1'', route_to ''x''), (''A'', route_to ''y''),
                               (''a@2'', route_to ''z'')])]"

lemma colliding_routing_map:
  "build_routing_map plain_lib colliding_queues = Inr [(''a'', [''z'']), (''A'', [''y''])]"
  "expand_routed_queues (Some ''a'') [(''a'', [''z'']), (''A'', [''y''])] = {''a'', ''y''}"
  by code_simp+

theorem queue_filter_downstream_witness:
  "root_name (Some ''debug'') = ''debug'' \<and>
   build_routing_map plain_lib debug_queues = Inr [(''debug'', [''debug-scaling''])] \<and>
   process_job plain_lib (PDict []) (no_filters\<lparr>queue_filter := Some ''debug''\<rparr>)
     (expanded_queue_set plain_lib (queue_filter (no_filters\<lparr>queue_filter := Some ''debug''\<rparr>))
        debug_queues)
     None ''113.x'' (queued_job ''debug-scaling'') =
     Inr (Some (queued_row ''113'' ''debug-scaling'')) \<and>
   (\<exists>q. py_get (queued_job ''debug-scaling'') ''queue'' (PStr ''Unknown'') = Inr (PStr q) \<and>
      (root_name (Some ''debug''), lower q)
        \<in> (edges (lower_map [(''debug'', [''debug-scaling''])]))\<^sup>*) \<and>
   root_name (Some ''@debug'') = [] \<and>
   expanded_queue_set plain_lib (queue_filter (no_filters\<lparr>queue_filter := Some ''@debug''\<rparr>))
     debug_queues = None \<and>
   process_job plain_lib (PDict []) (no_filters\<lparr>queue_filter := Some ''@debug''\<rparr>)
     (expanded_queue_set plain_lib (queue_filter (no_filters\<lparr>queue_filter := Some ''@debug''\<rparr>))
        debug_queues)
     None ''111.x'' (queued_job ''x@debug'') =
     Inr (Some (queued_row ''111'' ''x@debug''))"
proof -
  let ?flt = "no_filters\<lparr>queue_filter := Some ''debug''\<rparr>"
  let ?at = "no_filters\<lparr>queue_filter := Some ''@debug''\<rparr>"
  let ?R = "(edges (lower_map [(''debug'', [''debug-scaling''])]))\<^sup>*"
  have r: "root_name (Some ''debug'') = ''debug''"
    by code_simp
  have p: "process_job plain_lib (PDict []) ?flt
      (expanded_queue_set plain_lib (queue_filter ?flt) debug_queues)
      None ''113.x'' (queued_job ''debug-scaling'') =
      Inr (Some (queued_row ''113'' ''debug-scaling''))"
    by code_simp
  have ne: "''debug'' \<noteq> []"
    by simp
  have f: "queue_filter ?flt = Some ''debug''" "state_filter ?flt = None"
    "user_filter ?flt = None" "project_filter ?flt = None" "jobid_filter ?flt = None"
    by (simp_all add: no_filters_def)
  have i: "(if root_name (Some ''debug'') = [] then A else B) = B" for A B :: bool
    unfolding r by simp
  note th = queue_filter_downstream [OF ne debug_routing_map f p]
  from th have "\<exists>queue. py_get (queued_job ''debug-scaling'') ''queue'' (PStr ''Unknown'') = Inr queue \<and>
      (Some (queued_row ''113'' ''debug-scaling'') \<noteq> None) =
        (\<exists>q. queue = PStr q \<and>
           (if root_name (Some ''debug'') = [] then contains (lower ''debug'') (lower q)
            else (root_name (Some ''debug''), lower q) \<in> ?R))"
    by (rule conjunct2)
  then obtain queue where
    q1: "py_get (queued_job ''debug-scaling'') ''queue'' (PStr ''Unknown'') = Inr queue" and
    q2: "(Some (queued_row ''113'' ''debug-scaling'') \<noteq> None) =
           (\<exists>q. queue = PStr q \<and>
              (if root_name (Some ''debug'') = [] then contains (lower ''debug'') (lower q)
               else (root_name (Some ''debug''), lower q) \<in> ?R))"
    by (elim exE conjE)
  have q3: "(Some (queued_row ''113'' ''debug-scaling'') \<noteq> None) =
      (\<exists>q. queue = PStr q \<and> (root_name (Some ''debug''), lower q) \<in> ?R)"
    using q2 unfolding i .
  have "\<exists>q. queue = PStr q \<and> (root_name (Some ''debug''), lower q) \<in> ?R"
    by (rule iffD1 [OF q3]) (rule option.distinct(2))
  then obtain q where qq: "queue = PStr q" and
    m: "(root_name (Some ''debug''), lower q) \<in> ?R"
    by (elim exE conjE)
  have g: "py_get (queued_job ''debug-scaling'') ''queue'' (PStr ''Unknown'') = Inr (PStr q)"
    using q1 unfolding qq .
  have e: "\<exists>q. py_get (queued_job ''debug-scaling'') ''queue'' (PStr ''Unknown'') = Inr (PStr q) \<and>
      (root_name (Some ''debug''), lower q) \<in> ?R"
    using g m by (intro exI [of _ q] conjI)
  have ra: "root_name (Some ''@debug'') = []"
    by code_simp
  have pa: "process_job plain_lib (PDict []) ?at
      (expanded_queue_set plain_lib (queue_filter ?at) debug_queues)
      None ''111.x'' (queued_job ''x@debug'') =
      Inr (Some (queued_row ''111'' ''x@debug''))"
    by code_simp
  have nea: "''@debug'' \<noteq> []"
    by simp
  have fa: "queue_filter ?at = Some ''@debug''" "state_filter ?at = None"
    "user_filter ?at = None" "project_filter ?at = None" "jobid_filter ?at = None"
    by (simp_all add: no_filters_def)
  have ia: "(if root_name (Some ''@debug'') = [] then A else B) = A" for A B :: "string set option"
    unfolding ra by simp
  have xa: "expanded_queue_set plain_lib (queue_filter ?at) debug_queues = None"
    using conjunct1 [OF queue_filter_downstream [OF nea debug_routing_map fa pa]]
    unfolding ia .
  show ?thesis
    by (rule conjI [OF r conjI [OF debug_routing_map conjI [OF p conjI [OF e
          conjI [OF ra conjI [OF xa pa]]]]]])
qed

text \<open>
  Filtering by \<^verbatim>\<open>debug-scaling\<close>, a destination of the routing queue \<^verbatim>\<open>debug\<close>, prints
  the job queued in \<^verbatim>\<open>debug-scaling\<close> and not the job queued in \<^verbatim>\<open>debug\<close>.
\<close>

theorem queue_filter_upstream_counterexample:
  "print_jobs plain_lib two_jobs (PDict []) debug_queues None False
     (no_filters\<lparr>queue_filter := Some ''debug-scaling''\<rparr>) None None =
   Returned [queued_row ''113'' ''debug-scaling''] []"
  by code_simp

subsection \<open>Failing jobs\<close>











subsection \<open>The limit\<close>

text \<open>
  Claim C10.  The rows that reach the printing part of \<^verbatim>\<open>print_jobs\<close> under a limit are
  the rows that reach it without one (filtered and sorted), cut to the first \<open>n\<close> when the
  limit is an integer \<open>n > 0\<close>, and all of them when the limit is \<^verbatim>\<open>None\<close>, zero or
  negative.
\<close>

theorem print_jobs_limit:
  "print_jobs_rows lib job_data server_data queues_data sort_by reverse flt limit extra_columns =
     (case print_jobs_rows lib job_data server_data queues_data sort_by reverse flt None
             extra_columns of
        Emitted rows warned \<Rightarrow>
          Emitted (case limit of
                     None \<Rightarrow> rows
                   | Some n \<Rightarrow> if 0 < n then take (nat n) rows else rows) warned
      | Raised e \<Rightarrow> Raised e
      | NotModelled \<Rightarrow> NotModelled)"
  by (auto simp: print_jobs_rows_def apply_limit_def
      split: sum.splits pyval.splits sort_result.splits option.splits)

lemma snapshot_rows:
  "print_jobs_rows plain_lib snapshot (PDict []) debug_queues None False no_filters None None =
     Emitted [queued_row ''111'' ''debug'', queued_row ''113'' ''debug-scaling''] [''112.x'']"
  by code_simp

theorem print_jobs_limit_witness:
  "print_jobs_rows plain_lib snapshot (PDict []) debug_queues None False no_filters (Some 1) None =
     Emitted [queued_row ''111'' ''debug''] [''112.x''] \<and>
   print_jobs_rows plain_lib snapshot (PDict []) debug_queues None False no_filters (Some 0) None =
     Emitted [queued_row ''111'' ''debug'', queued_row ''113'' ''debug-scaling''] [''112.x''] \<and>
   print_jobs_rows plain_lib snapshot (PDict []) debug_queues None False no_filters (Some (- 2)) None =
     Emitted [queued_row ''111'' ''debug'', queued_row ''113'' ''debug-scaling''] [''112.x'']"
proof -
  have a: "print_jobs_rows plain_lib snapshot (PDict []) debug_queues None False no_filters
      (Some 1) None = Emitted [queued_row ''111'' ''debug''] [''112.x'']"
    by (simp add: print_jobs_limit [of _ _ _ _ _ _ _ "Some 1"] snapshot_rows)
  have b: "print_jobs_rows plain_lib snapshot (PDict []) debug_queues None False no_filters
      (Some 0) None =
      Emitted [queued_row ''111'' ''debug'', queued_row ''113'' ''debug-scaling''] [''112.x'']"
    by (simp add: print_jobs_limit [of _ _ _ _ _ _ _ "Some 0"] snapshot_rows)
  have c: "print_jobs_rows plain_lib snapshot (PDict []) debug_queues None False no_filters
      (Some (- 2)) None =
      Emitted [queued_row ''111'' ''debug'', queued_row ''113'' ''debug-scaling''] [''112.x'']"
    by (simp add: print_jobs_limit [of _ _ _ _ _ _ _ "Some (- 2)"] snapshot_rows)
  show ?thesis
    by (rule conjI [OF a conjI [OF b c]])
qed

section \<open>Repairing the output of qstat\<close>

text \<open>
  \<^verbatim>\<open>repair_qstat_json\<close>: a loop over the lines of the text, which keeps a state and the
  brace depth of the current job and appends one line per line it reads, and three
  substitutions on the text joined again.  \<^verbatim>\<open>qstat_jobs\<close> calls it on a text that
  \<^verbatim>\<open>json.loads\<close> has refused.
\<close>

datatype rstate = OUTSIDE_JOBS | INSIDE_JOBS | INSIDE_JOB

definition match_jobs_open :: "string \<Rightarrow> bool" where
  \<comment> \<open>\<^verbatim>\<open>re.match(r'^"Jobs"\s*:\s*{', s)\<close>\<close>
  \<open>match_jobs_open s =
     (is_prefix ''"Jobs"'' s \<and>
      (case dropWhile is_space (drop 6 s) of
         c # r \<Rightarrow> c = CHR '':'' \<and>
           (case dropWhile is_space r of d # _ \<Rightarrow> d = CHR ''{'' | [] \<Rightarrow> False)
       | [] \<Rightarrow> False))\<close>

definition match_job_start :: "string \<Rightarrow> bool" where
  \<comment> \<open>\<^verbatim>\<open>re.match(r'^"[0-9]+\.', s)\<close>\<close>
  "match_job_start s =
     (case s of
        c # r \<Rightarrow> c = CHR 0x22 \<and> takeWhile is_digit r \<noteq> [] \<and>
          (case dropWhile is_digit r of d # _ \<Rightarrow> d = CHR ''.'' | [] \<Rightarrow> False)
      | [] \<Rightarrow> False)"

definition count_chr :: "char \<Rightarrow> string \<Rightarrow> int" where
  \<comment> \<open>\<^verbatim>\<open>line.count(c)\<close>\<close>
  "count_chr c s = int (length (filter (\<lambda>x. x = c) s))"

definition ends_with_comma :: "string \<Rightarrow> bool" where
  \<comment> \<open>\<^verbatim>\<open>re.search(r',\s*$', line)\<close> for a line without a line feed\<close>
  "ends_with_comma line =
     (case dropWhile is_space (rev line) of c # _ \<Rightarrow> c = CHR '','' | [] \<Rightarrow> False)"

fun next_job_found :: "string list \<Rightarrow> bool" where
  \<comment> \<open>the look-ahead loop over the lines that follow\<close>
  "next_job_found [] = False"
| "next_job_found (l # ls) =
     (if match_job_start (dropWhile is_space (strip l)) then True
      else if strip l = ''}'' then False
      else next_job_found ls)"

text \<open>
  The loop, from the state, the depth, the lines appended and the number of repairs so
  far.  The test of line 134 is written as it stands in the code, under the test of line
  132.
\<close>

fun repair_loop ::
  "rstate \<Rightarrow> int \<Rightarrow> string list \<Rightarrow> nat \<Rightarrow> string list \<Rightarrow> string list \<times> nat" where
  "repair_loop state job_brace_level repaired_lines fix_count [] = (repaired_lines, fix_count)"
| "repair_loop state job_brace_level repaired_lines fix_count (line # rest) =
     (let stripped_line = strip line in
      if match_jobs_open stripped_line then
        repair_loop INSIDE_JOBS 0 (repaired_lines @ [line]) fix_count rest
      else if state = INSIDE_JOBS \<and> stripped_line = ''}'' then
        repair_loop OUTSIDE_JOBS job_brace_level (repaired_lines @ [line]) fix_count rest
      else if state = INSIDE_JOBS \<and> match_job_start stripped_line then
        (if state = INSIDE_JOB \<and> job_brace_level > 0
         then repair_loop INSIDE_JOB 0 (repaired_lines @ [''        },'', line])
                (fix_count + 1) rest
         else repair_loop INSIDE_JOB 0 (repaired_lines @ [line]) fix_count rest)
      else if state = INSIDE_JOB then
        (let level = job_brace_level + count_chr (CHR ''{'') line - count_chr (CHR ''}'') line in
         if level = 0 then
           (if next_job_found (take 4 rest) \<and> \<not> ends_with_comma line
            then repair_loop INSIDE_JOBS level (repaired_lines @ [rstrip line @ '','']) 
                   (fix_count + 1) rest
            else repair_loop INSIDE_JOBS level (repaired_lines @ [line]) fix_count rest)
         else repair_loop INSIDE_JOB level (repaired_lines @ [line]) fix_count rest)
      else repair_loop state job_brace_level (repaired_lines @ [line]) fix_count rest)"

fun join_lines :: "string list \<Rightarrow> string" where
  \<comment> \<open>\<^verbatim>\<open>'\n'.join(lines)\<close>\<close>
  "join_lines [] = []"
| "join_lines [l] = l"
| "join_lines (l # ls) = l @ CHR 0x0A # join_lines ls"

definition is_hex :: "char \<Rightarrow> bool" where
  \<comment> \<open>what \<^verbatim>\<open>[0-9a-f]\<close> matches\<close>
  "is_hex c = (is_digit c \<or> (let n = (of_char c :: nat) in 97 \<le> n \<and> n \<le> 102))"

text \<open>
  \<^verbatim>\<open>re.sub(r':(C{n,})', r':"\1"', text)\<close> for a class \<open>C\<close> of characters: every colon that
  \<open>n\<close> or more characters of the class follow has the whole run of them put in quotes.
\<close>

function quote_long :: "(char \<Rightarrow> bool) \<Rightarrow> nat \<Rightarrow> string \<Rightarrow> string" where
  "quote_long cls n [] = []"
| "quote_long cls n (c # cs) =
     (if c = CHR '':'' \<and> n \<le> length (takeWhile cls cs)
      then CHR '':'' # CHR 0x22 # takeWhile cls cs @ CHR 0x22 # quote_long cls n (dropWhile cls cs)
      else c # quote_long cls n cs)"
  by pat_completeness auto
termination
  by (relation "measure (\<lambda>(cls, n, s). length s)")
     (auto simp: length_dropWhile_le less_Suc_eq_le)

definition closes_next :: "string \<Rightarrow> bool" where
  \<comment> \<open>what follows matches \<^verbatim>\<open>\s*[}\]]\<close>\<close>
  "closes_next cs =
     (case dropWhile is_space cs of d # _ \<Rightarrow> d = CHR ''}'' \<or> d = CHR '']'' | [] \<Rightarrow> False)"

fun strip_trailing_commas :: "string \<Rightarrow> string" where
  \<comment> \<open>\<^verbatim>\<open>re.sub(r',(\s*[}\]])', r'\1', text)\<close>\<close>
  "strip_trailing_commas [] = []"
| "strip_trailing_commas (c # cs) =
     (if c = CHR '','' \<and> closes_next cs then strip_trailing_commas cs
      else c # strip_trailing_commas cs)"

definition repair_qstat_json :: "string \<Rightarrow> string" where
  "repair_qstat_json json_text =
     (let (repaired_lines, fix_count) =
            repair_loop OUTSIDE_JOBS 0 [] 0 (split_chr (CHR 0x0A) json_text)
      in strip_trailing_commas
           (quote_long is_digit 10 (quote_long is_hex 32 (join_lines repaired_lines))))"

text \<open>
  Three texts.  In \<open>unterminated_job\<close> the closing brace of job 111 is missing and job 112
  follows at once.  \<open>server_header\<close> and \<open>wellformed_jobs\<close> are well-formed JSON.
\<close>

definition unterminated_job :: "string list" where
  \<open>unterminated_job =
     [''{'',
      ''    "Jobs": {'',
      ''        "111.x": {'',
      ''            "job_state": "R"'',
      ''        "112.x": {'',
      ''            "job_state": "Q"'',
      ''        }'',
      ''    }'',
      ''}'']\<close>


definition unterminated_repaired :: "string list" where
  \<open>unterminated_repaired =
     [''{'',
      ''    "Jobs": {'',
      ''        "111.x": {'',
      ''            "job_state": "R",'',
      ''        "112.x": {'',
      ''            "job_state": "Q"'',
      ''        }'',
      ''    }'',
      ''}'']\<close>






definition line_pass :: "string \<Rightarrow> string list \<times> nat" where
  \<comment> \<open>the loop over the lines: the repaired lines and the number of repairs\<close>
  "line_pass json_text = repair_loop OUTSIDE_JOBS 0 [] 0 (split_chr (CHR 0x0A) json_text)"



lemma repair_loop_length:
  "length (fst (repair_loop st lvl out fix_count ls)) = length out + length ls"
  by (induction ls arbitrary: st lvl out fix_count) (auto simp: Let_def)





lemma repair_loop_lines:
  "\<exists>new. fst (repair_loop st lvl out fix_count ls) = out @ new \<and>
     list_all2 (\<lambda>l' l. l' = l \<or> l' = rstrip l @ '','') new ls"
proof (induction ls arbitrary: st lvl out fix_count)
  case Nil
  then show ?case by simp
next
  case (Cons line rest)
  have step: "\<exists>new. fst (repair_loop s l (out @ [x]) c rest) = out @ new \<and>
      list_all2 (\<lambda>l' l. l' = l \<or> l' = rstrip l @ '','') new (line # rest)"
    if "x = line \<or> x = rstrip line @ '',''" for s l c x
  proof -
    obtain new where "fst (repair_loop s l (out @ [x]) c rest) = (out @ [x]) @ new"
      and "list_all2 (\<lambda>l' l. l' = l \<or> l' = rstrip l @ '','') new rest"
      using Cons.IH [of s l "out @ [x]" c] by blast
    then show ?thesis
      using that by (intro exI [of _ "x # new"]) simp
  qed
  show ?case
    by (simp add: Let_def step)
qed

text \<open>
  Claim C1 on the code.  The branch that appends the closing brace (lines 134 to 136)
  tests \<^verbatim>\<open>state == INSIDE_JOB\<close> inside a branch that is entered only when
  \<^verbatim>\<open>state == INSIDE_JOBS\<close>: it never runs.  So for every text the loop appends exactly
  one line per line of the text, and each of them is the line itself or the line with a
  comma added at its end: no closing brace is ever synthesized.  On the text of the
  claim, job 111 without its closing brace and job 112 right after it, the repair adds a
  comma after the last attribute of job 111 and nothing else: the result has four
  opening braces and three closing ones, and is no JSON.
\<close>

theorem repair_never_closes_job:
  "list_all2 (\<lambda>l' l. l' = l \<or> l' = rstrip l @ '','')
     (fst (line_pass json_text)) (split_chr (CHR 0x0A) json_text) \<and>
   repair_qstat_json (join_lines unterminated_job) = join_lines unterminated_repaired \<and>
   count_chr (CHR ''{'') (join_lines unterminated_repaired) = 4 \<and>
   count_chr (CHR ''}'') (join_lines unterminated_repaired) = 3"
proof (intro conjI)
  show "list_all2 (\<lambda>l' l. l' = l \<or> l' = rstrip l @ '','')
     (fst (line_pass json_text)) (split_chr (CHR 0x0A) json_text)"
    using repair_loop_lines [of OUTSIDE_JOBS 0 "[]" 0 "split_chr (CHR 0x0A) json_text"]
    unfolding line_pass_def by simp
next
  show "repair_qstat_json (join_lines unterminated_job) = join_lines unterminated_repaired"
    by code_simp
next
  show "count_chr (CHR ''{'') (join_lines unterminated_repaired) = 4"
    by code_simp
next
  show "count_chr (CHR ''}'') (join_lines unterminated_repaired) = 3"
    by code_simp
qed




end
